theory Spec2Isabelle
  imports Complex_Main "HOL-Library.AList"
begin

section \<open>Python values shared by the models\<close>

text \<open>
  Exceptions are values: a class and the text that \<open>str(e)\<close> returns. A call into
  the database driver either returns or raises one.
  Points in time (\<open>datetime.now()\<close>) are integers counting microseconds, the
  resolution of Python's \<open>datetime\<close>, and are passed to every operation that
  reads the clock.
\<close>

datatype exc_class = ValueError | TypeError | KeyError | OverflowError | AttributeError | OtherException

datatype pyexc = PyExc exc_class string

fun exc_str :: "pyexc \<Rightarrow> string" where
  "exc_str (PyExc c msg) = msg"

fun exc_cls :: "pyexc \<Rightarrow> exc_class" where
  "exc_cls (PyExc c msg) = c"

datatype outcome = Returns | Raises pyexc

text \<open>
  The classes of \<open>exc_class\<close> all derive from \<open>Exception\<close>. A coroutine can
  also raise what derives from \<open>BaseException\<close> only, which an \<open>except Exception\<close>
  clause does not catch: the cancellation of the task, an interrupt, an exit. What is
  raised is one or the other, with its text.
\<close>

datatype base_class = CancelledError | KeyboardInterrupt | SystemExit | GeneratorExit

datatype raised = OfException pyexc | OfBaseException base_class string

text \<open>
  A string between single quotes, as the f-string \<open>'{x}'\<close> writes it; it is also the
  \<open>repr\<close> of a string that holds no quote, backslash or control character.
\<close>

definition quoted :: "string \<Rightarrow> string" where
  "quoted s = CHR 0x27 # s @ [CHR 0x27]"

text \<open>\<open>x or default\<close> on an optional string: \<open>None\<close> and the empty string are falsy.\<close>

fun or_default :: "string option \<Rightarrow> string \<Rightarrow> string" where
  "or_default None d = d"
| "or_default (Some s) d = (if s = [] then d else s)"

section \<open>Feed registry (core/feed\_registry/registry.py)\<close>

datatype FeedStatus =
  UNKNOWN | REGISTERED | STARTING | RUNNING | STOPPING | STOPPED | ERROR
  | HEALTHY | DEGRADED | UNHEALTHY

text \<open>
  A feed instance as the registry sees it: the attributes read by \<open>register_feed\<close>
  and what awaiting \<open>start_standalone()\<close> and \<open>stop()\<close> does: it returns, or
  it raises an exception of class \<open>Exception\<close>, or one that derives from
  \<open>BaseException\<close> only. \<open>has_stop\<close> is \<open>hasattr(instance, 'stop')\<close>.
\<close>

datatype feed_outcome = FeedReturns | FeedRaises raised

record feed_inst =
  feed_name :: string
  feed_category :: string
  inst_market_type :: "string option"
  inst_priority :: "string option"
  start_standalone :: feed_outcome
  has_stop :: bool
  stop :: feed_outcome

text \<open>
  A metrics dictionary: keys in insertion order, values booleans or numbers. Numbers are
  exact rationals; Python's \<open>bool\<close> is a subclass of \<open>int\<close>, so a boolean counts as
  1 or 0 in arithmetic, and a number is truthy when it is not zero.
\<close>

datatype mval = MBool bool | MNum rat

type_synonym metrics_dict = "(string \<times> mval) list"

fun num_of :: "mval \<Rightarrow> rat" where
  "num_of (MBool b) = (if b then 1 else 0)"
| "num_of (MNum x) = x"

fun truthy :: "mval \<Rightarrow> bool" where
  "truthy (MBool b) = b"
| "truthy (MNum x) = (x \<noteq> 0)"

definition get_num :: "metrics_dict \<Rightarrow> string \<Rightarrow> rat \<Rightarrow> rat" where
  "get_num m k d = (case map_of m k of None \<Rightarrow> d | Some v \<Rightarrow> num_of v)"

record FeedInfo =
  name :: string
  category :: string
  market_type :: string
  priority :: string
  feed_instance :: feed_inst
  status :: FeedStatus
  last_heartbeat :: int
  start_time :: "int option"
  error_count :: int
  last_error :: "string option"
  metrics :: metrics_dict
  health_score :: rat
  consecutive_failures :: int
  total_runs :: int
  successful_runs :: int

record RegistryMetrics =
  total_feeds :: int
  running_feeds :: int
  healthy_feeds :: int
  degraded_feeds :: int
  unhealthy_feeds :: int
  error_feeds :: int
  avg_health_score :: rat
  last_updated :: int

datatype call = Start | Stop

text \<open>
  The registry. \<open>feeds\<close> is the dictionary of feed records in insertion order;
  \<open>calls\<close> is not a field of the source: it logs, in order, every
  \<open>start_standalone()\<close> and \<open>stop()\<close> the registry awaits on an instance, which is
  the registry's visible effect on its feeds.
\<close>

record FeedRegistry =
  feeds :: "(string \<times> FeedInfo) list"
  feed_categories :: "string \<rightharpoonup> string list"
  feed_priorities :: "string \<rightharpoonup> string list"
  is_running :: bool
  startup_order :: "string list"
  shutdown_order :: "string list"
  reg_metrics :: RegistryMetrics
  health_check_interval :: int
  heartbeat_timeout :: int
  calls :: "(string \<times> call) list"

definition default_registry_metrics :: "int \<Rightarrow> RegistryMetrics" where
  "default_registry_metrics now =
     \<lparr>total_feeds = 0, running_feeds = 0, healthy_feeds = 0, degraded_feeds = 0,
      unhealthy_feeds = 0, error_feeds = 0, avg_health_score = 100, last_updated = now\<rparr>"

text \<open>\<open>FeedRegistry.__init__\<close>, with the two configuration values it reads.\<close>

definition init_registry :: "int \<Rightarrow> int option \<Rightarrow> int option \<Rightarrow> FeedRegistry" where
  "init_registry now cfg_interval cfg_timeout =
     \<lparr>feeds = [],
      feed_categories = Map.empty,
      feed_priorities = [''critical'' \<mapsto> [], ''high'' \<mapsto> [], ''medium'' \<mapsto> [], ''low'' \<mapsto> []],
      is_running = False,
      startup_order = [],
      shutdown_order = [],
      reg_metrics = default_registry_metrics now,
      health_check_interval = (case cfg_interval of None \<Rightarrow> 60 | Some i \<Rightarrow> i),
      heartbeat_timeout = (case cfg_timeout of None \<Rightarrow> 300 | Some t \<Rightarrow> t),
      calls = []\<rparr>"

definition count_status :: "FeedStatus \<Rightarrow> (string \<times> FeedInfo) list \<Rightarrow> int" where
  "count_status st fs = int (length (filter (\<lambda>(k, f). status f = st) fs))"

definition update_registry_metrics :: "int \<Rightarrow> FeedRegistry \<Rightarrow> FeedRegistry" where
  "update_registry_metrics now r =
     (let fs = feeds r; total = int (length fs) in
      r\<lparr>reg_metrics :=
          \<lparr>total_feeds = total,
           running_feeds = count_status RUNNING fs,
           healthy_feeds = count_status HEALTHY fs,
           degraded_feeds = count_status DEGRADED fs,
           unhealthy_feeds = count_status UNHEALTHY fs,
           error_feeds = count_status ERROR fs,
           avg_health_score =
             (if total > 0 then sum_list (map (\<lambda>(k, f). health_score f) fs) / of_int total
              else 100),
           last_updated = now\<rparr>\<rparr>)"

text \<open>
  \<open>_update_startup_order\<close>: the four priority lists concatenated in class order; the
  shutdown order is stored as the reverse. A missing class key would raise KeyError.
\<close>

definition update_startup_order :: "FeedRegistry \<Rightarrow> pyexc + FeedRegistry" where
  "update_startup_order r =
     (case those (map (feed_priorities r) [''critical'', ''high'', ''medium'', ''low'']) of
        None \<Rightarrow> Inl (PyExc KeyError ''priority'')
      | Some ls \<Rightarrow>
          (let so = concat ls in Inr (r\<lparr>startup_order := so, shutdown_order := rev so\<rparr>)))"

definition new_feed_info :: "int \<Rightarrow> feed_inst \<Rightarrow> FeedInfo" where
  "new_feed_info now inst =
     \<lparr>name = feed_name inst,
      category = feed_category inst,
      market_type = or_default (inst_market_type inst) ''stock_market'',
      priority = or_default (inst_priority inst) ''medium'',
      feed_instance = inst,
      status = REGISTERED,
      last_heartbeat = now,
      start_time = None,
      error_count = 0,
      last_error = None,
      metrics = [],
      health_score = 100,
      consecutive_failures = 0,
      total_runs = 0,
      successful_runs = 0\<rparr>"

text \<open>
  \<open>register_feed\<close>. The body runs inside \<open>try\<close>; an unknown priority raises KeyError
  at the priority list, after the feed record and the category list were written, and the
  handler returns \<open>False\<close>.
\<close>

definition register_feed :: "int \<Rightarrow> feed_inst \<Rightarrow> FeedRegistry \<Rightarrow> bool \<times> FeedRegistry" where
  "register_feed now inst r =
     (let info = new_feed_info now inst;
          fname = name info;
          fcat = category info;
          prio = priority info;
          r1 = r\<lparr>feeds := AList.update fname info (feeds r)\<rparr>;
          cat_list = (case feed_categories r1 fcat of None \<Rightarrow> [] | Some l \<Rightarrow> l);
          r2 = r1\<lparr>feed_categories := (feed_categories r1)
                  (fcat \<mapsto> (if fname \<in> set cat_list then cat_list else cat_list @ [fname]))\<rparr>
      in case feed_priorities r2 prio of
           None \<Rightarrow> (False, r2)
         | Some l \<Rightarrow>
             (let r3 = r2\<lparr>feed_priorities := (feed_priorities r2)
                          (prio \<mapsto> (if fname \<in> set l then l else l @ [fname]))\<rparr>
              in case update_startup_order r3 of
                   Inl e \<Rightarrow> (False, r3)
                 | Inr r4 \<Rightarrow> (True, update_registry_metrics now r4)))"

definition set_feed :: "string \<Rightarrow> FeedInfo \<Rightarrow> FeedRegistry \<Rightarrow> FeedRegistry" where
  "set_feed fname info r = r\<lparr>feeds := AList.update fname info (feeds r)\<rparr>"

text \<open>
  \<open>start_feed\<close>: the body of the \<open>try\<close> block. \<open>Inl\<close> is an exception leaving the
  block, together with the registry as mutated up to that point.
\<close>

definition start_feed_try ::
    "int \<Rightarrow> string \<Rightarrow> FeedRegistry \<Rightarrow> (raised \<times> FeedRegistry) + (bool \<times> FeedRegistry)" where
  "start_feed_try now fname r =
     (case map_of (feeds r) fname of
        None \<Rightarrow> Inr (False, r)
      | Some info \<Rightarrow>
          if status info = RUNNING then Inr (True, r)
          else
            (let info1 = info\<lparr>status := STARTING\<rparr>;
                 r1 = (set_feed fname info1 r)\<lparr>calls := calls r @ [(fname, Start)]\<rparr>
             in case start_standalone (feed_instance info) of
                  FeedRaises x \<Rightarrow> Inl (x, r1)
                | FeedReturns \<Rightarrow>
                    Inr (True, set_feed fname (info1\<lparr>status := RUNNING, start_time := Some now\<rparr>) r1)))"

text \<open>
  \<open>start_feed\<close> with its \<open>except Exception\<close> handler, which catches an exception of
  class \<open>Exception\<close> only. \<open>Inl\<close> is what reaches the caller of \<open>start_feed\<close>:
  the class and text of the exception, and the registry as it is left.
\<close>

definition start_feed ::
    "int \<Rightarrow> string \<Rightarrow> FeedRegistry
      \<Rightarrow> ((base_class \<times> string) \<times> FeedRegistry) + (bool \<times> FeedRegistry)" where
  "start_feed now fname r =
     (case start_feed_try now fname r of
        Inr res \<Rightarrow> Inr res
      | Inl (OfBaseException c msg, r1) \<Rightarrow> Inl ((c, msg), r1)
      | Inl (OfException e, r1) \<Rightarrow>
          Inr (False,
            (case map_of (feeds r1) fname of
               None \<Rightarrow> r1
             | Some info \<Rightarrow>
                 set_feed fname
                   (info\<lparr>status := ERROR, last_error := Some (exc_str e),
                         error_count := error_count info + 1\<rparr>) r1)))"

definition stop_feed_try ::
    "string \<Rightarrow> FeedRegistry \<Rightarrow> (raised \<times> FeedRegistry) + (bool \<times> FeedRegistry)" where
  "stop_feed_try fname r =
     (case map_of (feeds r) fname of
        None \<Rightarrow> Inr (False, r)
      | Some info \<Rightarrow>
          if status info = STOPPED then Inr (True, r)
          else
            (let info1 = info\<lparr>status := STOPPING\<rparr>;
                 r1 = set_feed fname info1 r
             in if has_stop (feed_instance info) then
                  (let r2 = r1\<lparr>calls := calls r1 @ [(fname, Stop)]\<rparr>
                   in case stop (feed_instance info) of
                        FeedRaises x \<Rightarrow> Inl (x, r2)
                      | FeedReturns \<Rightarrow> Inr (True, set_feed fname (info1\<lparr>status := STOPPED\<rparr>) r2))
                else Inr (True, set_feed fname (info1\<lparr>status := STOPPED\<rparr>) r1)))"

definition stop_feed ::
    "string \<Rightarrow> FeedRegistry
      \<Rightarrow> ((base_class \<times> string) \<times> FeedRegistry) + (bool \<times> FeedRegistry)" where
  "stop_feed fname r =
     (case stop_feed_try fname r of
        Inr res \<Rightarrow> Inr res
      | Inl (OfBaseException c msg, r1) \<Rightarrow> Inl ((c, msg), r1)
      | Inl (OfException e, r1) \<Rightarrow>
          Inr (False,
            (case map_of (feeds r1) fname of
               None \<Rightarrow> r1
             | Some info \<Rightarrow>
                 set_feed fname (info\<lparr>status := ERROR, last_error := Some (exc_str e)\<rparr>) r1)))"

text \<open>
  \<open>start_all_feeds\<close> walks \<open>startup_order\<close>; \<open>clock k\<close> is the time at the k-th
  start (the loop sleeps \<open>stagger_delay\<close> after each one). The result dictionary is
  keyed by feed name. What \<open>start_feed\<close> lets through ends the loop.
\<close>

fun start_all_loop ::
    "(nat \<Rightarrow> int) \<Rightarrow> nat \<Rightarrow> string list \<Rightarrow> (string \<times> bool) list \<Rightarrow> FeedRegistry
      \<Rightarrow> ((base_class \<times> string) \<times> FeedRegistry)
          + ((string \<times> bool) list \<times> FeedRegistry)" where
  "start_all_loop clock k [] results r = Inr (results, r)"
| "start_all_loop clock k (n # ns) results r =
     (case start_feed (clock k) n r of
        Inl e \<Rightarrow> Inl e
      | Inr (b, r') \<Rightarrow> start_all_loop clock (Suc k) ns (AList.update n b results) r')"

definition start_all_feeds ::
    "(nat \<Rightarrow> int) \<Rightarrow> FeedRegistry
      \<Rightarrow> ((base_class \<times> string) \<times> FeedRegistry)
          + ((string \<times> bool) list \<times> FeedRegistry)" where
  "start_all_feeds clock r = start_all_loop clock 0 (startup_order r) [] r"

fun stop_all_loop ::
    "string list \<Rightarrow> (string \<times> bool) list \<Rightarrow> FeedRegistry
      \<Rightarrow> ((base_class \<times> string) \<times> FeedRegistry)
          + ((string \<times> bool) list \<times> FeedRegistry)" where
  "stop_all_loop [] results r = Inr (results, r)"
| "stop_all_loop (n # ns) results r =
     (case stop_feed n r of
        Inl e \<Rightarrow> Inl e
      | Inr (b, r') \<Rightarrow> stop_all_loop ns (AList.update n b results) r')"

text \<open>\<open>stop_all_feeds\<close> iterates \<open>reversed(self.shutdown_order)\<close>.\<close>

definition stop_all_feeds ::
    "FeedRegistry
      \<Rightarrow> ((base_class \<times> string) \<times> FeedRegistry)
          + ((string \<times> bool) list \<times> FeedRegistry)" where
  "stop_all_feeds r = stop_all_loop (rev (shutdown_order r)) [] r"

text \<open>\<open>_calculate_health_score\<close>, statement by statement.\<close>

definition calculate_health_score :: "metrics_dict \<Rightarrow> rat" where
  "calculate_health_score m =
     (let score0 = 100;
          success_rate = get_num m ''success_rate'' 100;
          score1 = score0 - (100 - success_rate) * (1 / 2);
          execution_time = get_num m ''execution_time_ms'' 0;
          score2 = (if execution_time > 10000 then score1 - 20
                    else if execution_time > 5000 then score1 - 10
                    else score1);
          error_count = get_num m ''error_count'' 0;
          score3 = score2 - min (error_count * 5) 30
      in max 0 (min 100 score3))"

text \<open>
  \<open>update_feed_status\<close>. \<open>if metrics:\<close> is false for \<open>None\<close> and for the empty
  dictionary.
\<close>

definition update_feed_status ::
    "int \<Rightarrow> string \<Rightarrow> FeedStatus \<Rightarrow> metrics_dict option \<Rightarrow> FeedRegistry \<Rightarrow> FeedRegistry" where
  "update_feed_status now fname st mo r =
     (case map_of (feeds r) fname of
        None \<Rightarrow> r
      | Some info \<Rightarrow>
          (let info1 = info\<lparr>status := st, last_heartbeat := now\<rparr>;
               info2 =
                 (case mo of
                    None \<Rightarrow> info1
                  | Some m \<Rightarrow>
                      if m = [] then info1
                      else
                        (let i2 = info1\<lparr>metrics := m, health_score := calculate_health_score m\<rparr>
                         in case map_of m ''success'' of
                              None \<Rightarrow> i2
                            | Some v \<Rightarrow>
                                (let i3 = i2\<lparr>total_runs := total_runs i2 + 1\<rparr>
                                 in if truthy v
                                    then i3\<lparr>successful_runs := successful_runs i3 + 1,
                                             consecutive_failures := 0\<rparr>
                                    else i3\<lparr>consecutive_failures := consecutive_failures i3 + 1\<rparr>)))
           in update_registry_metrics now (set_feed fname info2 r)))"

definition record_feed_error :: "int \<Rightarrow> string \<Rightarrow> string \<Rightarrow> FeedRegistry \<Rightarrow> FeedRegistry" where
  "record_feed_error now fname err r =
     (case map_of (feeds r) fname of
        None \<Rightarrow> r
      | Some info \<Rightarrow>
          (let info1 = info\<lparr>error_count := error_count info + 1,
                             last_error := Some err,
                             last_heartbeat := now,
                             consecutive_failures := consecutive_failures info + 1\<rparr>;
               info2 = (if consecutive_failures info1 \<ge> 5 then info1\<lparr>status := UNHEALTHY\<rparr>
                        else if consecutive_failures info1 \<ge> 3 then info1\<lparr>status := DEGRADED\<rparr>
                        else info1)
           in set_feed fname info2 r))"

text \<open>
  \<open>_perform_health_checks\<close>: \<open>heartbeat_timeout\<close> is in seconds; the threshold is
  \<open>now - timedelta(seconds=heartbeat_timeout)\<close>.
\<close>

definition check_heartbeat :: "int \<Rightarrow> FeedInfo \<Rightarrow> FeedInfo" where
  "check_heartbeat timeout_threshold info =
     (if last_heartbeat info < timeout_threshold then
        (if status info \<in> set [RUNNING, HEALTHY]
         then info\<lparr>status := UNHEALTHY, consecutive_failures := consecutive_failures info + 1\<rparr>
         else info)
      else info)"

definition perform_health_checks :: "int \<Rightarrow> FeedRegistry \<Rightarrow> FeedRegistry" where
  "perform_health_checks now r =
     (let timeout_threshold = now - heartbeat_timeout r * 1000000
      in update_registry_metrics now
           (r\<lparr>feeds := map (\<lambda>(k, info). (k, check_heartbeat timeout_threshold info)) (feeds r)\<rparr>))"

section \<open>Observations and sample registries\<close>

definition feed_status :: "FeedRegistry \<Rightarrow> string \<Rightarrow> FeedStatus option" where
  "feed_status r n = map_option status (map_of (feeds r) n)"

definition feed_failures :: "FeedRegistry \<Rightarrow> string \<Rightarrow> int option" where
  "feed_failures r n = map_option consecutive_failures (map_of (feeds r) n)"

definition demo_inst :: "string \<Rightarrow> string \<Rightarrow> feed_inst" where
  "demo_inst n p =
     \<lparr>feed_name = n, feed_category = ''market'', inst_market_type = None,
      inst_priority = Some p, start_standalone = FeedReturns, has_stop = True,
      stop = FeedReturns\<rparr>"

definition reg_one :: FeedRegistry where
  "reg_one = snd (register_feed 0 (demo_inst ''F'' ''high'') (init_registry 0 None None))"

definition report_failure :: "FeedRegistry \<Rightarrow> FeedRegistry" where
  "report_failure r = update_feed_status 0 ''F'' RUNNING (Some [(''success'', MBool False)]) r"

definition reg_abc :: FeedRegistry where
  "reg_abc =
     snd (register_feed 0 (demo_inst ''C'' ''critical'')
       (snd (register_feed 0 (demo_inst ''B'' ''medium'')
         (snd (register_feed 0 (demo_inst ''A'' ''critical'') (init_registry 0 None None))))))"

definition run_registry ::
    "FeedRegistry
      \<Rightarrow> ((base_class \<times> string) \<times> FeedRegistry) + ((string \<times> bool) list \<times> FeedRegistry)
      \<Rightarrow> FeedRegistry" where
  "run_registry r0 res = (case res of Inl e \<Rightarrow> r0 | Inr (results, r) \<Rightarrow> r)"

definition reg_abc_started :: FeedRegistry where
  "reg_abc_started = run_registry reg_abc (start_all_feeds (\<lambda>k. 0) reg_abc)"

definition reg_abc_stopped :: FeedRegistry where
  "reg_abc_stopped = run_registry reg_abc_started (stop_all_feeds reg_abc_started)"









definition reg_degraded :: FeedRegistry where
  "reg_degraded = record_feed_error 0 ''F'' ''e3'' (record_feed_error 0 ''F'' ''e2'' (record_feed_error 0 ''F'' ''e1'' reg_one))"

section \<open>Python values of records (the \<open>Any\<close> of the storage layer)\<close>

text \<open>
  The values a raw record can hold: \<open>None\<close>, booleans, integers, floats, strings,
  \<open>datetime\<close> and \<open>date\<close> objects (a point in microseconds, a day number) and any
  other object (by identity). \<open>'f\<close> is the carrier of Python's floats. What the
  interpreter's built-ins do on floats, and its parsers and printers, are parameters of
  the model, collected in a record:
  \<^item> \<open>float_of_str s\<close> is \<open>float(s)\<close>, \<open>None\<close> when it raises ValueError;
  \<^item> \<open>float_of_int i\<close> is \<open>float(i)\<close>, \<open>None\<close> when it raises OverflowError;
  \<^item> \<open>int_of_float f\<close> is \<open>int(f)\<close>, or the class of the exception it raises (ValueError
    on a NaN, OverflowError on an infinity);
  \<^item> \<open>float_truthy f\<close> is \<open>bool(f)\<close>; \<open>float_eq\<close> and \<open>float_eq_int\<close> are
    \<open>==\<close> between two floats and between a float and an integer;
  \<^item> \<open>repr v\<close> is \<open>str(v)\<close> for floats, dates and other objects;
  \<^item> \<open>fromisoformat\<close> and \<open>strptime_ymd\<close> are \<open>datetime.fromisoformat\<close> and
    \<open>datetime.strptime(., '%Y-%m-%d').date()\<close>, \<open>None\<close> when they raise ValueError.
\<close>

datatype 'f pyval =
  PNone | PBool bool | PInt int | PFloat 'f | PStr string | PDatetime int | PDate int | PObj nat

record 'f pyrt =
  float_of_str :: "string \<Rightarrow> 'f option"
  float_of_int :: "int \<Rightarrow> 'f option"
  int_of_float :: "'f \<Rightarrow> exc_class + int"
  float_truthy :: "'f \<Rightarrow> bool"
  float_eq :: "'f \<Rightarrow> 'f \<Rightarrow> bool"
  float_eq_int :: "'f \<Rightarrow> int \<Rightarrow> bool"
  repr :: "'f pyval \<Rightarrow> string"
  fromisoformat :: "string \<Rightarrow> int option"
  strptime_ymd :: "string \<Rightarrow> int option"

text \<open>Decimal digits of a natural number and \<open>str\<close> of an integer.\<close>

fun digits :: "nat \<Rightarrow> string" where
  "digits n = (if n < 10 then [char_of (48 + n)]
               else digits (n div 10) @ [char_of (48 + n mod 10)])"

definition show_int :: "int \<Rightarrow> string" where
  "show_int i = (if i < 0 then CHR ''-'' # digits (nat (- i)) else digits (nat i))"

text \<open>\<open>str(value)\<close>.\<close>

definition py_str :: "'f pyrt \<Rightarrow> 'f pyval \<Rightarrow> string" where
  "py_str rt v =
     (case v of
        PStr s \<Rightarrow> s
      | PNone \<Rightarrow> ''None''
      | PBool b \<Rightarrow> (if b then ''True'' else ''False'')
      | PInt i \<Rightarrow> show_int i
      | _ \<Rightarrow> repr rt v)"

text \<open>\<open>float(value)\<close>: a boolean is an integer; other objects raise TypeError.\<close>

definition py_float :: "'f pyrt \<Rightarrow> 'f pyval \<Rightarrow> pyexc + 'f" where
  "py_float rt v =
     (case v of
        PFloat f \<Rightarrow> Inr f
      | PBool b \<Rightarrow>
          (case float_of_int rt (if b then 1 else 0) of
             Some f \<Rightarrow> Inr f
           | None \<Rightarrow> Inl (PyExc OverflowError ''int too large to convert to float''))
      | PInt i \<Rightarrow>
          (case float_of_int rt i of
             Some f \<Rightarrow> Inr f
           | None \<Rightarrow> Inl (PyExc OverflowError ''int too large to convert to float''))
      | PStr s \<Rightarrow>
          (case float_of_str rt s of
             Some f \<Rightarrow> Inr f
           | None \<Rightarrow>
               Inl (PyExc ValueError (''could not convert string to float: '' @ quoted s)))
      | _ \<Rightarrow> Inl (PyExc TypeError ''float() argument must be a string or a real number''))"

text \<open>\<open>int(f)\<close> on a float.\<close>

definition py_int :: "'f pyrt \<Rightarrow> 'f \<Rightarrow> pyexc + int" where
  "py_int rt f =
     (case int_of_float rt f of
        Inr i \<Rightarrow> Inr i
      | Inl c \<Rightarrow>
          Inl (PyExc c (if c = ValueError then ''cannot convert float NaN to integer''
                        else ''cannot convert float infinity to integer'')))"

text \<open>\<open>bool(value)\<close>.\<close>

definition py_bool :: "'f pyrt \<Rightarrow> 'f pyval \<Rightarrow> bool" where
  "py_bool rt v =
     (case v of
        PNone \<Rightarrow> False
      | PBool b \<Rightarrow> b
      | PInt i \<Rightarrow> i \<noteq> 0
      | PFloat f \<Rightarrow> float_truthy rt f
      | PStr s \<Rightarrow> s \<noteq> []
      | _ \<Rightarrow> True)"

text \<open>
  \<open>a == b\<close>. Numbers compare by value across \<open>bool\<close>, \<open>int\<close> and \<open>float\<close>; a
  \<open>datetime\<close> never equals a \<open>date\<close>; other objects compare by identity.
\<close>

definition py_eq :: "'f pyrt \<Rightarrow> 'f pyval \<Rightarrow> 'f pyval \<Rightarrow> bool" where
  "py_eq rt x y =
     (case x of
        PNone \<Rightarrow> (case y of PNone \<Rightarrow> True | _ \<Rightarrow> False)
      | PBool a \<Rightarrow>
          (case y of
             PBool b \<Rightarrow> a = b
           | PInt b \<Rightarrow> (if a then 1 else 0) = b
           | PFloat b \<Rightarrow> float_eq_int rt b (if a then 1 else 0)
           | _ \<Rightarrow> False)
      | PInt a \<Rightarrow>
          (case y of
             PBool b \<Rightarrow> a = (if b then 1 else 0)
           | PInt b \<Rightarrow> a = b
           | PFloat b \<Rightarrow> float_eq_int rt b a
           | _ \<Rightarrow> False)
      | PFloat a \<Rightarrow>
          (case y of
             PBool b \<Rightarrow> float_eq_int rt a (if b then 1 else 0)
           | PInt b \<Rightarrow> float_eq_int rt a b
           | PFloat b \<Rightarrow> float_eq rt a b
           | _ \<Rightarrow> False)
      | PStr a \<Rightarrow> (case y of PStr b \<Rightarrow> a = b | _ \<Rightarrow> False)
      | PDatetime a \<Rightarrow> (case y of PDatetime b \<Rightarrow> a = b | _ \<Rightarrow> False)
      | PDate a \<Rightarrow> (case y of PDate b \<Rightarrow> a = b | _ \<Rightarrow> False)
      | PObj a \<Rightarrow> (case y of PObj b \<Rightarrow> a = b | _ \<Rightarrow> False))"

text \<open>\<open>s.lower()\<close> on the ASCII letters and \<open>s.replace('Z', '+00:00')\<close>.\<close>

definition lower_char :: "char \<Rightarrow> char" where
  "lower_char c =
     (let n = (of_char c :: nat) in if 65 \<le> n \<and> n \<le> 90 then char_of (n + 32) else c)"

definition lower :: "string \<Rightarrow> string" where
  "lower s = map lower_char s"

definition replace_Z :: "string \<Rightarrow> string" where
  "replace_Z s = concat (map (\<lambda>c. if c = CHR ''Z'' then ''+00:00'' else [c]) s)"

section \<open>Schema manager (core/questdb\_manager/schema\_manager.py)\<close>

text \<open>
  The column type \<open>INT\<close> of the source is written \<open>INT'\<close>, since \<open>INT\<close> is notation
  of HOL.
\<close>

datatype ColumnType =
  TIMESTAMP | SYMBOL | STRING | DOUBLE | FLOAT | LONG | INT' | BOOLEAN | DATE | BINARY

fun type_value :: "ColumnType \<Rightarrow> string" where
  "type_value TIMESTAMP = ''TIMESTAMP''"
| "type_value SYMBOL = ''SYMBOL''"
| "type_value STRING = ''STRING''"
| "type_value DOUBLE = ''DOUBLE''"
| "type_value FLOAT = ''FLOAT''"
| "type_value LONG = ''LONG''"
| "type_value INT' = ''INT''"
| "type_value BOOLEAN = ''BOOLEAN''"
| "type_value DATE = ''DATE''"
| "type_value BINARY = ''BINARY''"

text \<open>
  \<open>ColumnDefinition\<close>; its \<open>name\<close>, \<open>type\<close> and \<open>description\<close> are the fields
  \<open>col_name\<close>, \<open>col_type\<close> and \<open>col_description\<close>. A \<open>default_value\<close> of \<open>PNone\<close>
  is no default.
\<close>

record 'f ColumnDefinition =
  col_name :: string
  col_type :: ColumnType
  nullable :: bool
  symbol_capacity :: "int option"
  symbol_cache :: bool
  index :: bool
  default_value :: "'f pyval"
  col_description :: string

definition is_none :: "'f pyval \<Rightarrow> bool" where
  "is_none v = (case v of PNone \<Rightarrow> True | _ \<Rightarrow> False)"

definition isinstance_str :: "'f pyval \<Rightarrow> bool" where
  "isinstance_str v = (case v of PStr s \<Rightarrow> True | _ \<Rightarrow> False)"

text \<open>\<open>datetime\<close> is a subclass of \<open>date\<close>: \<open>isinstance(value, date)\<close> holds for both.\<close>

definition isinstance_date :: "'f pyval \<Rightarrow> bool" where
  "isinstance_date v = (case v of PDate d \<Rightarrow> True | PDatetime t \<Rightarrow> True | _ \<Rightarrow> False)"

definition isinstance_datetime :: "'f pyval \<Rightarrow> bool" where
  "isinstance_datetime v = (case v of PDatetime t \<Rightarrow> True | _ \<Rightarrow> False)"

text \<open>\<open>value.date()\<close> of a \<open>datetime\<close>: the day of a point in microseconds.\<close>

definition date_of :: "'f pyval \<Rightarrow> 'f pyval" where
  "date_of v = (case v of PDatetime t \<Rightarrow> PDate (t div 86400000000) | _ \<Rightarrow> v)"

text \<open>
  The body of the \<open>try\<close> block of \<open>validate_value\<close>, for a value that is not \<open>None\<close>:
  one branch per column type, in the order of the source.
\<close>

definition convert_value :: "'f pyrt \<Rightarrow> ColumnType \<Rightarrow> 'f pyval \<Rightarrow> pyexc + 'f pyval" where
  "convert_value rt t v =
     (if t = TIMESTAMP then
        (case v of
           PStr s \<Rightarrow>
             (case fromisoformat rt (replace_Z s) of
                Some d \<Rightarrow> Inr (PDatetime d)
              | None \<Rightarrow>
                  Inl (PyExc ValueError (''Invalid isoformat string: '' @ quoted (replace_Z s))))
         | PDatetime d \<Rightarrow> Inr v
         | _ \<Rightarrow> Inl (PyExc ValueError (''Invalid timestamp format: '' @ py_str rt v)))
      else if t = DATE then
        (if isinstance_str v then
           (case strptime_ymd rt (py_str rt v) of
              Some d \<Rightarrow> Inr (PDate d)
            | None \<Rightarrow>
                Inl (PyExc ValueError
                       (''time data '' @ quoted (py_str rt v) @ '' does not match format ''
                          @ quoted ''%Y-%m-%d'')))
         else if isinstance_date v then Inr v
         else if isinstance_datetime v then Inr (date_of v)
         else Inl (PyExc ValueError (''Invalid date format: '' @ py_str rt v)))
      else if t \<in> set [DOUBLE, FLOAT] then
        (case py_float rt v of Inl e \<Rightarrow> Inl e | Inr f \<Rightarrow> Inr (PFloat f))
      else if t \<in> set [LONG, INT'] then
        (case py_float rt v of
           Inl e \<Rightarrow> Inl e
         | Inr f \<Rightarrow> (case py_int rt f of Inl e \<Rightarrow> Inl e | Inr i \<Rightarrow> Inr (PInt i)))
      else if t = BOOLEAN then
        (case v of
           PBool b \<Rightarrow> Inr v
         | PStr s \<Rightarrow> Inr (PBool (lower s \<in> set [''true'', ''1'', ''yes'', ''on'']))
         | _ \<Rightarrow> Inr (PBool (py_bool rt v)))
      else if t \<in> set [STRING, SYMBOL] then Inr (PStr (py_str rt v))
      else Inr v)"

text \<open>
  \<open>ColumnDefinition.validate_value\<close>: the null check, then the conversion; a ValueError
  or TypeError of the conversion is raised again as a ValueError that names the column,
  any other exception (the OverflowError of \<open>float\<close> or \<open>int\<close>) passes unchanged.
\<close>

definition validate_value :: "'f pyrt \<Rightarrow> 'f ColumnDefinition \<Rightarrow> 'f pyval \<Rightarrow> pyexc + 'f pyval" where
  "validate_value rt c v =
     (if is_none v then
        (if \<not> nullable c
         then Inl (PyExc ValueError (''Column '' @ quoted (col_name c) @ '' cannot be null''))
         else Inr PNone)
      else
        (case convert_value rt (col_type c) v of
           Inr v' \<Rightarrow> Inr v'
         | Inl e \<Rightarrow>
             if exc_cls e \<in> set [ValueError, TypeError]
             then Inl (PyExc ValueError
                    (''Invalid value for column '' @ quoted (col_name c) @ '' (type ''
                      @ type_value (col_type c) @ ''): '' @ py_str rt v @ '' - '' @ exc_str e))
             else Inl e))"

text \<open>\<open>TableSchema\<close>; its \<open>description\<close> is the field \<open>schema_description\<close>.\<close>

record 'f TableSchema =
  table_name :: string
  columns :: "'f ColumnDefinition list"
  timestamp_column :: string
  partition_by :: string
  wal_enabled :: bool
  schema_description :: string
  version :: string

text \<open>
  \<open>_validate_schema\<close>, run by the constructor: \<open>None\<close> when the schema is accepted,
  else the ValueError.
\<close>

definition validate_schema :: "'f TableSchema \<Rightarrow> pyexc option" where
  "validate_schema sch =
     (if table_name sch = [] then Some (PyExc ValueError ''Table name is required'')
      else if columns sch = [] then Some (PyExc ValueError ''At least one column is required'')
      else
        (case find (\<lambda>col. col_name col = timestamp_column sch) (columns sch) of
           None \<Rightarrow>
             Some (PyExc ValueError
                     (''Timestamp column '' @ quoted (timestamp_column sch)
                        @ '' not found in columns''))
         | Some timestamp_col \<Rightarrow>
             if col_type timestamp_col \<noteq> TIMESTAMP
             then Some (PyExc ValueError
                          (''Timestamp column '' @ quoted (timestamp_column sch)
                             @ '' must be of type TIMESTAMP''))
             else if length (map col_name (columns sch))
                       \<noteq> card (set (map col_name (columns sch)))
             then Some (PyExc ValueError ''Duplicate column names found'')
             else None))"

text \<open>
  A dictionary of a record is a map from field names to values; \<open>record.get(k)\<close> is
  \<open>None\<close> for an absent key.
\<close>

type_synonym 'f pydict = "string \<rightharpoonup> 'f pyval"

definition dict_get :: "'f pydict \<Rightarrow> string \<Rightarrow> 'f pyval" where
  "dict_get d k = (case d k of None \<Rightarrow> PNone | Some v \<Rightarrow> v)"

text \<open>
  \<open>TableSchema.validate_record\<close>: the loop over the columns, with the dictionary built
  so far; the first column that fails ends it.
\<close>

fun validate_columns ::
    "'f pyrt \<Rightarrow> 'f ColumnDefinition list \<Rightarrow> 'f pydict \<Rightarrow> 'f pydict \<Rightarrow> pyexc + 'f pydict" where
  "validate_columns rt [] record validated = Inr validated"
| "validate_columns rt (column # cs) record validated =
     (let value0 = dict_get record (col_name column);
          value = (if is_none value0 \<and> \<not> is_none (default_value column)
                   then default_value column else value0)
      in case validate_value rt column value of
           Inl e \<Rightarrow> Inl e
         | Inr v \<Rightarrow> validate_columns rt cs record (validated(col_name column \<mapsto> v)))"

definition validate_record :: "'f pyrt \<Rightarrow> 'f TableSchema \<Rightarrow> 'f pydict \<Rightarrow> pyexc + 'f pydict" where
  "validate_record rt sch record = validate_columns rt (columns sch) record Map.empty"

definition record_to_values :: "'f TableSchema \<Rightarrow> 'f pydict \<Rightarrow> 'f pyval list" where
  "record_to_values sch record = map (\<lambda>col. dict_get record (col_name col)) (columns sch)"

section \<open>Store manager (core/questdb\_manager/client.py)\<close>

record BatchInsertResult =
  success :: bool
  records_inserted :: int
  records_failed :: int
  execution_time_ms :: rat
  error_message :: "string option"

text \<open>
  What the connection pool and the database driver do during one call:
  \<open>get_connection\<close> is acquiring the connection and its cursor;
  \<open>execute_values_commit i a\<close> is \<open>execute_values\<close> followed by \<open>commit\<close> for the
  batch that starts at row \<open>i\<close>, at attempt \<open>a\<close>; \<open>rollback i a\<close> is the
  \<open>rollback\<close> after that attempt failed.
\<close>

record db_env =
  get_connection :: outcome
  execute_values_commit :: "nat \<Rightarrow> nat \<Rightarrow> outcome"
  rollback :: "nat \<Rightarrow> nat \<Rightarrow> outcome"

text \<open>
  The manager: the schema registry, the retry count of its configuration and the
  counters of its \<open>metrics\<close> dictionary. \<open>committed\<close> is not a field of the source:
  it lists the batches of rows whose insert was committed.
\<close>

record 'f QuestDBManager =
  schemas :: "string \<rightharpoonup> 'f TableSchema"
  retry_attempts :: int
  total_inserts :: int
  total_records_inserted :: int
  successful_queries :: int
  failed_queries :: int
  mgr_last_error :: "string option"
  committed :: "'f pyval list list list"

text \<open>
  The validation loop of \<open>execute_batch_insert\<close>, with \<open>validated_data\<close>,
  \<open>records_inserted\<close> and \<open>records_failed\<close> as its state. Any exception of
  \<open>validate_record\<close> counts the record as failed.
\<close>

fun validate_data ::
    "'f pyrt \<Rightarrow> 'f TableSchema \<Rightarrow> 'f pydict list \<Rightarrow> 'f pydict list \<times> int \<times> int
      \<Rightarrow> 'f pydict list \<times> int \<times> int" where
  "validate_data rt schema [] acc = acc"
| "validate_data rt schema (record # rs) (validated_data, inserted, failed) =
     (case validate_record rt schema record of
        Inr validated_record \<Rightarrow>
          validate_data rt schema rs (validated_data @ [validated_record], inserted + 1, failed)
      | Inl e \<Rightarrow> validate_data rt schema rs (validated_data, inserted, failed + 1))"

text \<open>
  The retry loop \<open>for attempt in range(retry_attempts)\<close> for the batch at row \<open>i\<close>;
  the last argument counts the attempts left. The result says whether the loop ended
  normally or by an exception, and whether the batch was committed.
\<close>

fun insert_with_retries :: "db_env \<Rightarrow> int \<Rightarrow> nat \<Rightarrow> nat \<Rightarrow> nat \<Rightarrow> outcome \<times> bool" where
  "insert_with_retries env retries i attempt 0 = (Returns, False)"
| "insert_with_retries env retries i attempt (Suc k) =
     (case execute_values_commit env i attempt of
        Returns \<Rightarrow> (Returns, True)
      | Raises e \<Rightarrow>
          if int attempt = retries - 1 then (Raises e, False)
          else
            (case rollback env i attempt of
               Raises e2 \<Rightarrow> (Raises e2, False)
             | Returns \<Rightarrow> insert_with_retries env retries i (Suc attempt) k))"

text \<open>
  The batch loop \<open>for i in range(0, len(validated_data), batch_size)\<close> for a positive
  \<open>batch_size\<close>, over the rows not yet sent.
\<close>

function insert_batches ::
    "db_env \<Rightarrow> int \<Rightarrow> nat \<Rightarrow> nat \<Rightarrow> 'a list \<Rightarrow> 'a list list \<Rightarrow> outcome \<times> 'a list list" where
  "insert_batches env retries batch_size i rows done =
     (if rows = [] \<or> batch_size = 0 then (Returns, done)
      else
        (case insert_with_retries env retries i 0 (nat retries) of
           (Raises e, c) \<Rightarrow> (Raises e, done)
         | (Returns, c) \<Rightarrow>
             insert_batches env retries batch_size (i + batch_size) (drop batch_size rows)
               (if c then done @ [take batch_size rows] else done)))"
  by pat_completeness auto
termination
  by (relation "measure (\<lambda>(env, retries, batch_size, i, rows, done). length rows)") auto

declare insert_batches.simps [simp del]

text \<open>The \<open>except Exception\<close> handler of \<open>execute_batch_insert\<close>.\<close>

definition batch_failure ::
    "rat \<Rightarrow> rat \<Rightarrow> int \<Rightarrow> int \<Rightarrow> pyexc \<Rightarrow> 'f QuestDBManager
      \<Rightarrow> BatchInsertResult \<times> 'f QuestDBManager" where
  "batch_failure t_start t_end inserted failed e mgr =
     (\<lparr>success = False, records_inserted = inserted, records_failed = failed,
       execution_time_ms = (t_end - t_start) * 1000, error_message = Some (exc_str e)\<rparr>,
      mgr\<lparr>failed_queries := failed_queries mgr + 1, mgr_last_error := Some (exc_str e)\<rparr>)"

text \<open>
  \<open>execute_batch_insert\<close>; \<open>t_start\<close> and \<open>t_end\<close> are the two readings of
  \<open>time.time()\<close>. \<open>range\<close> with step 0 raises ValueError, with a negative step it is
  empty.
\<close>

definition execute_batch_insert ::
    "'f pyrt \<Rightarrow> db_env \<Rightarrow> rat \<Rightarrow> rat \<Rightarrow> string \<Rightarrow> 'f pydict list \<Rightarrow> int \<Rightarrow> 'f QuestDBManager
      \<Rightarrow> BatchInsertResult \<times> 'f QuestDBManager" where
  "execute_batch_insert rt env t_start t_end tbl data batch_size mgr =
     (let total_records = int (length data) in
      case data of
        [] \<Rightarrow>
          (\<lparr>success = True, records_inserted = 0, records_failed = 0,
            execution_time_ms = 0, error_message = None\<rparr>, mgr)
      | _ # _ \<Rightarrow>
          (case schemas mgr tbl of
             None \<Rightarrow>
               batch_failure t_start t_end 0 0
                 (PyExc ValueError (''No schema found for table '' @ quoted tbl)) mgr
           | Some schema \<Rightarrow>
               (case validate_data rt schema data ([], 0, 0) of
                  (validated_data, inserted, failed) \<Rightarrow>
                    (case validated_data of
                       [] \<Rightarrow>
                         (\<lparr>success = False, records_inserted = 0,
                           records_failed = total_records,
                           execution_time_ms = (t_end - t_start) * 1000,
                           error_message = Some ''No valid records to insert''\<rparr>, mgr)
                     | _ # _ \<Rightarrow>
                         (case get_connection env of
                            Raises e \<Rightarrow> batch_failure t_start t_end inserted failed e mgr
                          | Returns \<Rightarrow>
                              if batch_size = 0 then
                                batch_failure t_start t_end inserted failed
                                  (PyExc ValueError ''range() arg 3 must not be zero'') mgr
                              else
                                (case insert_batches env (retry_attempts mgr) (nat batch_size) 0
                                        (if batch_size < 0 then []
                                         else map (record_to_values schema) validated_data) [] of
                                   (Raises e, done) \<Rightarrow>
                                     batch_failure t_start t_end inserted failed e
                                       (mgr\<lparr>committed := committed mgr @ done\<rparr>)
                                 | (Returns, done) \<Rightarrow>
                                     (\<lparr>success = True, records_inserted = inserted,
                                       records_failed = failed,
                                       execution_time_ms = (t_end - t_start) * 1000,
                                       error_message = None\<rparr>,
                                      mgr\<lparr>committed := committed mgr @ done,
                                          total_inserts := total_inserts mgr + 1,
                                          total_records_inserted :=
                                            total_records_inserted mgr + inserted,
                                          successful_queries := successful_queries mgr + 1\<rparr>)))))))"

section \<open>Store health monitor (core/questdb\_manager/health\_monitor.py)\<close>

text \<open>
  The members of \<open>HealthStatus\<close> carry the prefix \<open>HS\<close>, since the feed registry
  has statuses of the same names. \<open>health_status_of s\<close> is \<open>HealthStatus(s)\<close>,
  \<open>None\<close> when it raises ValueError.
\<close>

text \<open>
  Metric values and threshold levels are the finite floats and the integers of the source,
  read as the rational numbers they denote; the order comparisons of the source are exact
  on them. Times are microseconds since a fixed instant, as integers: the age of an alert
  in seconds is below \<open>60 * alert_cooldown_minutes\<close> exactly when its age in
  microseconds is below a million times that. The quotient and the product in
  \<open>_calculate_pool_usage\<close> and \<open>_calculate_success_rate\<close> are rounded to the nearest
  float in the source and exact here; at the sample inputs below (92/100, 96/100 and 2/10,
  each times 100) the rounded results are 92.0, 96.0 and 20.0, the exact ones.
\<close>

datatype HealthStatus = HS_HEALTHY | HS_DEGRADED | HS_UNHEALTHY | HS_CRITICAL | HS_UNKNOWN

definition health_status_of :: "string \<Rightarrow> HealthStatus option" where
  "health_status_of s =
     (if s = ''healthy'' then Some HS_HEALTHY
      else if s = ''degraded'' then Some HS_DEGRADED
      else if s = ''unhealthy'' then Some HS_UNHEALTHY
      else if s = ''critical'' then Some HS_CRITICAL
      else if s = ''unknown'' then Some HS_UNKNOWN
      else None)"

record HealthThreshold =
  warning_level :: rat
  critical_level :: rat
  threshold_description :: string

text \<open>
  \<open>HealthAlert\<close>; its \<open>value\<close> and \<open>threshold\<close> are the fields \<open>alert_value\<close>
  and \<open>alert_threshold\<close>.
\<close>

record HealthAlert =
  timestamp :: int
  alert_type :: string
  severity :: string
  message :: string
  alert_value :: "rat option"
  alert_threshold :: "rat option"
  resolved :: bool
  resolved_at :: "int option"

text \<open>
  \<open>HealthMetrics\<close>. Fields whose names the registry or the manager use too carry the
  prefix \<open>hm\<close>. \<open>alerts\<close> holds references to alert objects (see below).
\<close>

record HealthMetrics =
  hm_timestamp :: int
  hm_status :: HealthStatus
  response_time_ms :: rat
  connection_pool_usage :: rat
  active_connections :: int
  hm_total_queries :: int
  hm_failed_queries :: int
  success_rate :: rat
  avg_query_time_ms :: rat
  total_tables :: int
  disk_usage_percent :: "rat option"
  memory_usage_percent :: "rat option"
  uptime_seconds :: rat
  hm_last_error :: "string option"
  alerts :: "nat list"

text \<open>
  The monitor. An alert object is shared: the dictionary \<open>active_alerts\<close> and the
  \<open>alerts\<close> list of a metrics snapshot refer to the same object, and resolving an
  alert mutates it. So alert objects live in a store, \<open>alert_objects\<close>, in order of
  creation; a reference is an index into it. \<open>active_alerts\<close> is the dictionary from
  metric name to reference, in insertion order. \<open>last_logged_status\<close> is \<open>None\<close>
  until the attribute \<open>_last_logged_status\<close> exists.
\<close>

record QuestDBHealthMonitor =
  current_status :: HealthMetrics
  status_history :: "HealthMetrics list"
  active_alerts :: "(string \<times> nat) list"
  alert_objects :: "HealthAlert list"
  thresholds :: "string \<rightharpoonup> HealthThreshold"
  max_history_size :: nat
  alert_cooldown_minutes :: int
  last_health_check :: int
  monitor_consecutive_failures :: int
  last_successful_check :: int
  last_logged_status :: "HealthStatus option"

definition default_thresholds :: "string \<rightharpoonup> HealthThreshold" where
  "default_thresholds =
     [''response_time_ms'' \<mapsto>
        \<lparr>warning_level = 1000, critical_level = 5000,
         threshold_description = ''Database response time in milliseconds''\<rparr>,
      ''connection_pool_usage'' \<mapsto>
        \<lparr>warning_level = 70, critical_level = 90,
         threshold_description = ''Connection pool usage percentage''\<rparr>,
      ''success_rate'' \<mapsto>
        \<lparr>warning_level = 95, critical_level = 90,
         threshold_description = ''Query success rate percentage (reversed - lower is worse)''\<rparr>,
      ''consecutive_failures'' \<mapsto>
        \<lparr>warning_level = 3, critical_level = 5,
         threshold_description = ''Number of consecutive health check failures''\<rparr>,
      ''disk_usage_percent'' \<mapsto>
        \<lparr>warning_level = 80, critical_level = 90,
         threshold_description = ''Disk usage percentage''\<rparr>,
      ''memory_usage_percent'' \<mapsto>
        \<lparr>warning_level = 80, critical_level = 90,
         threshold_description = ''Memory usage percentage''\<rparr>]"

definition default_health_metrics :: "int \<Rightarrow> HealthMetrics" where
  "default_health_metrics now =
     \<lparr>hm_timestamp = now, hm_status = HS_UNKNOWN, response_time_ms = 0,
      connection_pool_usage = 0, active_connections = 0, hm_total_queries = 0,
      hm_failed_queries = 0, success_rate = 100, avg_query_time_ms = 0, total_tables = 0,
      disk_usage_percent = None, memory_usage_percent = None, uptime_seconds = 0,
      hm_last_error = None, alerts = []\<rparr>"

text \<open>\<open>QuestDBHealthMonitor.__init__\<close>.\<close>

definition init_monitor :: "int \<Rightarrow> QuestDBHealthMonitor" where
  "init_monitor now =
     \<lparr>current_status = default_health_metrics now,
      status_history = [],
      active_alerts = [],
      alert_objects = [],
      thresholds = default_thresholds,
      max_history_size = 1000,
      alert_cooldown_minutes = 5,
      last_health_check = 0,
      monitor_consecutive_failures = 0,
      last_successful_check = now,
      last_logged_status = None\<rparr>"

text \<open>
  The status dictionary passed to \<open>update_status\<close>, with the keys it reads; the keys
  of the nested \<open>pool_stats\<close> and \<open>metrics\<close> dictionaries carry the prefixes
  \<open>pool\<close> and \<open>md\<close>. An absent key is \<open>None\<close>.
\<close>

record status_data =
  sd_status :: "string option"
  sd_connection_test_time_ms :: "rat option"
  pool_max_connections :: "rat option"
  pool_active_connections :: "rat option"
  sd_connection_pool_size :: "int option"
  sd_total_tables :: "int option"
  sd_error :: "string option"
  md_total_queries :: "int option"
  md_failed_queries :: "int option"
  md_successful_queries :: "int option"
  md_avg_query_time :: "rat option"
  md_uptime_seconds :: "rat option"
  md_last_error :: "string option"

definition get_or :: "'a option \<Rightarrow> 'a \<Rightarrow> 'a" where
  "get_or x d = (case x of None \<Rightarrow> d | Some v \<Rightarrow> v)"

definition calculate_pool_usage :: "status_data \<Rightarrow> rat" where
  "calculate_pool_usage sd =
     (let max_connections = get_or (pool_max_connections sd) 1;
          active = get_or (pool_active_connections sd) 0
      in if max_connections > 0 then (active / max_connections) * 100 else 0)"

definition calculate_success_rate :: "status_data \<Rightarrow> rat" where
  "calculate_success_rate sd =
     (let total_queries = get_or (md_total_queries sd) 0;
          successful_queries = get_or (md_successful_queries sd) 0
      in if total_queries = 0 then 100
         else (of_int successful_queries / of_int total_queries) * 100)"

text \<open>
  \<open>f"{value:.2f}"\<close>: two decimals, the exact value rounded half to even.
\<close>

definition round_half_even :: "rat \<Rightarrow> int" where
  "round_half_even x =
     (let f = \<lfloor>x\<rfloor>; d = x - of_int f
      in if d < 1 / 2 then f else if d > 1 / 2 then f + 1 else if even f then f else f + 1)"

definition format_2f :: "rat \<Rightarrow> string" where
  "format_2f x =
     (let n = nat (round_half_even (\<bar>x\<bar> * 100))
      in (if x < 0 then ''-'' else '''') @ digits (n div 100) @ ''.''
           @ digits ((n mod 100) div 10) @ digits (n mod 10))"

text \<open>
  The severity of one check of \<open>_check_alert_conditions\<close>: \<open>None\<close> when the value
  is on the good side of both levels.
\<close>

definition alert_severity :: "bool \<Rightarrow> rat \<Rightarrow> HealthThreshold \<Rightarrow> string option" where
  "alert_severity reversed_logic v threshold =
     (if reversed_logic then
        (if v \<le> critical_level threshold then Some ''critical''
         else if v \<le> warning_level threshold then Some ''warning''
         else None)
      else
        (if v \<ge> critical_level threshold then Some ''critical''
         else if v \<ge> warning_level threshold then Some ''warning''
         else None))"

text \<open>
  The object behind a reference. A reference held by the monitor always points into the
  store; the model reads a reference outside it as no object.
\<close>

definition deref :: "HealthAlert list \<Rightarrow> nat \<Rightarrow> HealthAlert option" where
  "deref objs a = (if a < length objs then Some (objs ! a) else None)"

text \<open>
  The cooldown test: the key has an active alert whose age, in seconds, is below
  \<open>alert_cooldown_minutes * 60\<close>. Times are in microseconds.
\<close>

definition in_cooldown :: "int \<Rightarrow> QuestDBHealthMonitor \<Rightarrow> string \<Rightarrow> bool" where
  "in_cooldown current_time mon alert_key =
     (case map_of (active_alerts mon) alert_key of
        None \<Rightarrow> False
      | Some a \<Rightarrow>
          (case deref (alert_objects mon) a of
             None \<Rightarrow> False
           | Some last_alert \<Rightarrow>
               current_time - timestamp last_alert < alert_cooldown_minutes mon * 60 * 1000000))"

text \<open>The alert object that a check creates.\<close>

definition make_alert :: "int \<Rightarrow> string \<Rightarrow> rat \<Rightarrow> string \<Rightarrow> HealthThreshold \<Rightarrow> HealthAlert" where
  "make_alert current_time metric_name v sev threshold =
     \<lparr>timestamp = current_time,
      alert_type = metric_name,
      severity = sev,
      message = threshold_description threshold @ '': '' @ format_2f v,
      alert_value = Some v,
      alert_threshold =
        Some (if sev = ''warning'' then warning_level threshold else critical_level threshold),
      resolved = False,
      resolved_at = None\<rparr>"

text \<open>
  One round of the loop over \<open>checks\<close>: the state is the list of new alerts and the
  monitor.
\<close>

definition check_one ::
    "int \<Rightarrow> string \<times> rat \<times> bool \<Rightarrow> nat list \<times> QuestDBHealthMonitor
      \<Rightarrow> nat list \<times> QuestDBHealthMonitor" where
  "check_one current_time chk st =
     (case chk of (metric_name, v, reversed_logic) \<Rightarrow>
      case st of (new_alerts, mon) \<Rightarrow>
        (case thresholds mon metric_name of
           None \<Rightarrow> (new_alerts, mon)
         | Some threshold \<Rightarrow>
             if in_cooldown current_time mon metric_name then (new_alerts, mon)
             else
               (case alert_severity reversed_logic v threshold of
                  None \<Rightarrow> (new_alerts, mon)
                | Some sev \<Rightarrow>
                    (let alert = make_alert current_time metric_name v sev threshold;
                         a = length (alert_objects mon)
                     in (new_alerts @ [a],
                         mon\<lparr>alert_objects := alert_objects mon @ [alert],
                             active_alerts := AList.update metric_name a (active_alerts mon)\<rparr>)))))"

text \<open>The list \<open>checks\<close> of \<open>_check_alert_conditions\<close>.\<close>

definition checks_of :: "HealthMetrics \<Rightarrow> QuestDBHealthMonitor \<Rightarrow> (string \<times> rat \<times> bool) list" where
  "checks_of m mon =
     [(''response_time_ms'', response_time_ms m, False),
      (''connection_pool_usage'', connection_pool_usage m, False),
      (''success_rate'', success_rate m, True),
      (''consecutive_failures'', of_int (monitor_consecutive_failures mon), False)]"

text \<open>
  \<open>getattr(metrics, metric_name, None)\<close> for the numeric attributes of a snapshot;
  \<open>consecutive_failures\<close> is no attribute of \<open>HealthMetrics\<close>.
\<close>

definition metric_attr :: "HealthMetrics \<Rightarrow> string \<Rightarrow> rat option" where
  "metric_attr m metric_name =
     (if metric_name = ''response_time_ms'' then Some (response_time_ms m)
      else if metric_name = ''connection_pool_usage'' then Some (connection_pool_usage m)
      else if metric_name = ''active_connections'' then Some (of_int (active_connections m))
      else if metric_name = ''total_queries'' then Some (of_int (hm_total_queries m))
      else if metric_name = ''failed_queries'' then Some (of_int (hm_failed_queries m))
      else if metric_name = ''success_rate'' then Some (success_rate m)
      else if metric_name = ''avg_query_time_ms'' then Some (avg_query_time_ms m)
      else if metric_name = ''total_tables'' then Some (of_int (total_tables m))
      else if metric_name = ''disk_usage_percent'' then disk_usage_percent m
      else if metric_name = ''memory_usage_percent'' then memory_usage_percent m
      else if metric_name = ''uptime_seconds'' then Some (uptime_seconds m)
      else None)"

text \<open>
  The loop of \<open>_check_resolved_alerts\<close> over a copy of the items of
  \<open>active_alerts\<close>: the state is the list \<open>resolved_alerts\<close> of keys and the store,
  where a resolved alert is marked.
\<close>

definition resolve_one ::
    "int \<Rightarrow> HealthMetrics \<Rightarrow> (string \<rightharpoonup> HealthThreshold) \<Rightarrow> string \<times> nat
      \<Rightarrow> string list \<times> HealthAlert list \<Rightarrow> string list \<times> HealthAlert list" where
  "resolve_one current_time m ths item st =
     (case item of (alert_key, a) \<Rightarrow>
      case st of (resolved_alerts, objs) \<Rightarrow>
        (case deref objs a of
           None \<Rightarrow> (resolved_alerts, objs)
         | Some alert \<Rightarrow>
             if resolved alert then (resolved_alerts, objs)
             else
               (case ths (alert_type alert) of
                  None \<Rightarrow> (resolved_alerts, objs)
                | Some threshold \<Rightarrow>
                    (case metric_attr m (alert_type alert) of
                       None \<Rightarrow> (resolved_alerts, objs)
                     | Some current_value \<Rightarrow>
                         if (if alert_type alert = ''success_rate''
                             then current_value > warning_level threshold
                             else current_value < warning_level threshold)
                         then (resolved_alerts @ [alert_key],
                               objs[a := alert\<lparr>resolved := True,
                                                resolved_at := Some current_time\<rparr>])
                         else (resolved_alerts, objs)))))"

fun resolve_loop ::
    "int \<Rightarrow> HealthMetrics \<Rightarrow> (string \<rightharpoonup> HealthThreshold) \<Rightarrow> (string \<times> nat) list
      \<Rightarrow> string list \<times> HealthAlert list \<Rightarrow> string list \<times> HealthAlert list" where
  "resolve_loop current_time m ths [] st = st"
| "resolve_loop current_time m ths (item # items) st =
     resolve_loop current_time m ths items (resolve_one current_time m ths item st)"

fun delete_keys :: "string list \<Rightarrow> (string \<times> nat) list \<Rightarrow> (string \<times> nat) list" where
  "delete_keys [] al = al"
| "delete_keys (k # ks) al = delete_keys ks (AList.delete k al)"

definition check_resolved_alerts ::
    "int \<Rightarrow> HealthMetrics \<Rightarrow> QuestDBHealthMonitor \<Rightarrow> QuestDBHealthMonitor" where
  "check_resolved_alerts current_time m mon =
     (case resolve_loop current_time m (thresholds mon) (active_alerts mon)
             ([], alert_objects mon) of
        (resolved_alerts, objs) \<Rightarrow>
          mon\<lparr>alert_objects := objs,
              active_alerts := delete_keys resolved_alerts (active_alerts mon)\<rparr>)"

fun check_loop ::
    "int \<Rightarrow> (string \<times> rat \<times> bool) list \<Rightarrow> nat list \<times> QuestDBHealthMonitor
      \<Rightarrow> nat list \<times> QuestDBHealthMonitor" where
  "check_loop current_time [] st = st"
| "check_loop current_time (chk # chks) st =
     check_loop current_time chks (check_one current_time chk st)"

text \<open>
  \<open>_check_alert_conditions\<close>: \<open>t_check\<close> is its reading of the clock, \<open>t_resolve\<close>
  the one of \<open>_check_resolved_alerts\<close>. It returns the new alerts.
\<close>

definition check_alert_conditions ::
    "int \<Rightarrow> int \<Rightarrow> HealthMetrics \<Rightarrow> QuestDBHealthMonitor \<Rightarrow> nat list \<times> QuestDBHealthMonitor" where
  "check_alert_conditions t_check t_resolve m mon =
     (case check_loop t_check (checks_of m mon) ([], mon) of
        (new_alerts, mon1) \<Rightarrow> (new_alerts, check_resolved_alerts t_resolve m mon1))"

text \<open>
  \<open>_add_to_history\<close>: the slice \<open>history[-max_history_size:]\<close> is the whole list
  when \<open>max_history_size\<close> is 0.
\<close>

definition add_to_history :: "HealthMetrics \<Rightarrow> QuestDBHealthMonitor \<Rightarrow> QuestDBHealthMonitor" where
  "add_to_history m mon =
     (let h = status_history mon @ [m]
      in mon\<lparr>status_history :=
               (if length h > max_history_size mon
                then (if max_history_size mon = 0 then h
                      else drop (length h - max_history_size mon) h)
                else h)\<rparr>)"

text \<open>
  The snapshot that \<open>update_status\<close> builds from the status dictionary, before the
  alerts are attached, and its update of the failure counter.
\<close>

definition metrics_of_status :: "int \<Rightarrow> HealthStatus \<Rightarrow> status_data \<Rightarrow> HealthMetrics" where
  "metrics_of_status now st sd =
     \<lparr>hm_timestamp = now,
      hm_status = st,
      response_time_ms = get_or (sd_connection_test_time_ms sd) 0,
      connection_pool_usage = calculate_pool_usage sd,
      active_connections = get_or (sd_connection_pool_size sd) 0,
      hm_total_queries = get_or (md_total_queries sd) 0,
      hm_failed_queries = get_or (md_failed_queries sd) 0,
      success_rate = calculate_success_rate sd,
      avg_query_time_ms = get_or (md_avg_query_time sd) 0,
      total_tables = get_or (sd_total_tables sd) 0,
      disk_usage_percent = None,
      memory_usage_percent = None,
      uptime_seconds = get_or (md_uptime_seconds sd) 0,
      hm_last_error =
        (case sd_error sd of
           None \<Rightarrow> md_last_error sd
         | Some e \<Rightarrow> if e = [] then md_last_error sd else Some e),
      alerts = []\<rparr>"

definition count_failures :: "int \<Rightarrow> HealthStatus \<Rightarrow> QuestDBHealthMonitor \<Rightarrow> QuestDBHealthMonitor" where
  "count_failures now st mon =
     (if st = HS_HEALTHY
      then mon\<lparr>monitor_consecutive_failures := 0, last_successful_check := now\<rparr>
      else mon\<lparr>monitor_consecutive_failures := monitor_consecutive_failures mon + 1\<rparr>)"

text \<open>
  \<open>update_status\<close>, with the three readings of the clock of one call. An unknown status
  string raises ValueError at the first statement of the \<open>try\<close> block; the handler logs
  it and the monitor is unchanged.
\<close>

definition update_status ::
    "int \<Rightarrow> int \<Rightarrow> int \<Rightarrow> status_data \<Rightarrow> QuestDBHealthMonitor \<Rightarrow> QuestDBHealthMonitor" where
  "update_status now t_check t_resolve sd mon =
     (case health_status_of (get_or (sd_status sd) ''unknown'') of
        None \<Rightarrow> mon
      | Some st \<Rightarrow>
          (let current_metrics = metrics_of_status now st sd;
               mon1 = count_failures now st mon
           in case check_alert_conditions t_check t_resolve current_metrics mon1 of
                (new_alerts, mon2) \<Rightarrow>
                  (let current_metrics2 = current_metrics\<lparr>alerts := new_alerts\<rparr>;
                       mon3 = add_to_history current_metrics2
                                (mon2\<lparr>current_status := current_metrics2\<rparr>)
                   in mon3\<lparr>last_logged_status := Some st\<rparr>)))"

text \<open>
  \<open>update_thresholds\<close>: the argument is the dictionary from metric name to a dictionary
  that may hold \<open>warning_level\<close> and \<open>critical_level\<close>; a metric without a threshold
  is skipped, an absent level keeps its value. Nothing relates the two levels.
\<close>

record threshold_config =
  cfg_warning_level :: "rat option"
  cfg_critical_level :: "rat option"

fun update_thresholds ::
    "(string \<times> threshold_config) list \<Rightarrow> QuestDBHealthMonitor \<Rightarrow> QuestDBHealthMonitor" where
  "update_thresholds [] mon = mon"
| "update_thresholds ((metric, cfg) # rest) mon =
     update_thresholds rest
       (case thresholds mon metric of
          None \<Rightarrow> mon
        | Some th \<Rightarrow>
            mon\<lparr>thresholds := (thresholds mon)(metric \<mapsto>
                   th\<lparr>warning_level := get_or (cfg_warning_level cfg) (warning_level th),
                      critical_level := get_or (cfg_critical_level cfg) (critical_level th)\<rparr>)\<rparr>)"

text \<open>\<open>get_active_alerts\<close>: the alert objects of the active alerts.\<close>

definition get_active_alerts :: "QuestDBHealthMonitor \<Rightarrow> HealthAlert list" where
  "get_active_alerts mon =
     List.map_filter (\<lambda>(k, a). deref (alert_objects mon) a) (active_alerts mon)"

text \<open>
  Two facts about the interpreter that statements below refer to. Truncating a float to
  an integer gives an integer that converts back to a float with the same truncation (an
  integer with at most 53 significant bits, or the float itself); and a value is a NaN
  when it is a float that \<open>==\<close> does not equate with itself.
\<close>

definition int_float_roundtrip :: "'f pyrt \<Rightarrow> bool" where
  "int_float_roundtrip rt =
     (\<forall>f i. int_of_float rt f = Inr i \<longrightarrow>
        (\<exists>g. float_of_int rt i = Some g \<and> int_of_float rt g = Inr i))"

definition is_nan :: "'f pyrt \<Rightarrow> 'f pyval \<Rightarrow> bool" where
  "is_nan rt v = (case v of PFloat f \<Rightarrow> \<not> float_eq rt f f | _ \<Rightarrow> False)"

section \<open>A sample of the interpreter and sample columns\<close>

text \<open>
  For statements at concrete inputs: floats as rationals with the two infinities and a
  NaN, and built-ins that agree with CPython on the inputs used below (\<open>float('12.5')\<close>
  is 12.5, \<open>float('nan')\<close> is a NaN, \<open>float('abc')\<close> raises, truncation toward zero,
  a NaN equal to nothing).
\<close>

datatype sfloat = Finite rat | PosInf | NegInf | NaN

definition truncate_rat :: "rat \<Rightarrow> int" where
  "truncate_rat q = (if q \<ge> 0 then \<lfloor>q\<rfloor> else \<lceil>q\<rceil>)"

definition sample_rt :: "sfloat pyrt" where
  "sample_rt =
     \<lparr>float_of_str = (\<lambda>s. if s = ''12.5'' then Some (Finite (25 / 2))
                          else if s = ''3'' then Some (Finite 3)
                          else if s = ''nan'' then Some NaN
                          else if s = ''inf'' then Some PosInf
                          else None),
      float_of_int = (\<lambda>i. Some (Finite (of_int i))),
      int_of_float = (\<lambda>f. case f of Finite q \<Rightarrow> Inr (truncate_rat q)
                              | NaN \<Rightarrow> Inl ValueError | _ \<Rightarrow> Inl OverflowError),
      float_truthy = (\<lambda>f. case f of Finite q \<Rightarrow> q \<noteq> 0 | _ \<Rightarrow> True),
      float_eq = (\<lambda>a b. case a of NaN \<Rightarrow> False | _ \<Rightarrow> (case b of NaN \<Rightarrow> False | _ \<Rightarrow> a = b)),
      float_eq_int = (\<lambda>a i. case a of Finite q \<Rightarrow> q = of_int i | _ \<Rightarrow> False),
      repr = (\<lambda>v. ''<object>''),
      fromisoformat = (\<lambda>s. if s = ''2024-01-01T00:00:00+00:00'' then Some 1704067200000000 else None),
      strptime_ymd = (\<lambda>s. if s = ''2024-01-01'' then Some 19723 else None)\<rparr>"

definition price_col :: "sfloat ColumnDefinition" where
  "price_col =
     \<lparr>col_name = ''price'', col_type = DOUBLE, nullable = False, symbol_capacity = None,
      symbol_cache = False, index = False, default_value = PNone, col_description = ''''\<rparr>"

definition qty_col :: "sfloat ColumnDefinition" where
  "qty_col =
     \<lparr>col_name = ''qty'', col_type = INT', nullable = True, symbol_capacity = None,
      symbol_cache = False, index = False, default_value = PNone, col_description = ''''\<rparr>"

text \<open>
  A sample table: a timestamp, the spec's \<open>price DOUBLE NOT NULL\<close>, a nullable
  integer without default and a boolean with default \<open>False\<close>; a record the schema
  accepts (with a field \<open>venue\<close> that is no column) and one it rejects.
\<close>

definition ts_col :: "sfloat ColumnDefinition" where
  "ts_col =
     \<lparr>col_name = ''timestamp'', col_type = TIMESTAMP, nullable = False, symbol_capacity = None,
      symbol_cache = False, index = False, default_value = PNone, col_description = ''''\<rparr>"

definition resolved_col :: "sfloat ColumnDefinition" where
  "resolved_col =
     \<lparr>col_name = ''resolved'', col_type = BOOLEAN, nullable = True, symbol_capacity = None,
      symbol_cache = False, index = False, default_value = PBool False, col_description = ''''\<rparr>"

definition trades_schema :: "sfloat TableSchema" where
  "trades_schema =
     \<lparr>table_name = ''trades'', columns = [ts_col, price_col, qty_col, resolved_col],
      timestamp_column = ''timestamp'', partition_by = ''DAY'', wal_enabled = True,
      schema_description = '''', version = ''1.0.0''\<rparr>"

definition good_record :: "sfloat pydict" where
  "good_record = [''timestamp'' \<mapsto> PDatetime 0, ''price'' \<mapsto> PStr ''12.5'', ''venue'' \<mapsto> PStr ''X'']"

definition bad_record :: "sfloat pydict" where
  "bad_record = [''timestamp'' \<mapsto> PDatetime 0, ''price'' \<mapsto> PStr ''abc'']"

definition good_validated :: "sfloat pydict" where
  "good_validated =
     [''timestamp'' \<mapsto> PDatetime 0, ''price'' \<mapsto> PFloat (Finite (25 / 2)),
      ''qty'' \<mapsto> PNone, ''resolved'' \<mapsto> PBool False]"

definition ok_env :: db_env where
  "ok_env = \<lparr>get_connection = Returns, execute_values_commit = (\<lambda>i a. Returns),
             rollback = (\<lambda>i a. Returns)\<rparr>"

definition new_manager :: "(string \<rightharpoonup> 'f TableSchema) \<Rightarrow> 'f QuestDBManager" where
  "new_manager ss =
     \<lparr>schemas = ss, retry_attempts = 3, total_inserts = 0, total_records_inserted = 0,
      successful_queries = 0, failed_queries = 0, mgr_last_error = None, committed = []\<rparr>"

text \<open>
  The number of records of a batch that \<open>validate_record\<close> accepts, and that it
  rejects; a manager that knows the sample table and one that knows no table.
\<close>

definition valid_count :: "'f pyrt \<Rightarrow> 'f TableSchema \<Rightarrow> 'f pydict list \<Rightarrow> nat" where
  "valid_count rt sch data = length (filter (\<lambda>r. \<not> isl (validate_record rt sch r)) data)"

definition invalid_count :: "'f pyrt \<Rightarrow> 'f TableSchema \<Rightarrow> 'f pydict list \<Rightarrow> nat" where
  "invalid_count rt sch data = length (filter (\<lambda>r. isl (validate_record rt sch r)) data)"

definition trades_manager :: "sfloat QuestDBManager" where
  "trades_manager = new_manager [''trades'' \<mapsto> trades_schema]"

definition empty_manager :: "sfloat QuestDBManager" where
  "empty_manager = new_manager Map.empty"

section \<open>Observations and sample runs of the health monitor\<close>


text \<open>
  The monitor is well formed: every active alert is an object of the store, filed under
  its own \<open>alert_type\<close>. It holds initially and every \<open>update_status\<close> and
  \<open>update_thresholds\<close> keeps it.
\<close>

definition monitor_inv :: "QuestDBHealthMonitor \<Rightarrow> bool" where
  "monitor_inv mon =
     list_all (\<lambda>(key, a). a < length (alert_objects mon) \<and> alert_type (alert_objects mon ! a) = key)
       (active_alerts mon)"








text \<open>
  A healthy status dictionary with \<open>ok\<close> successful queries out of 100, so a success
  rate of \<open>ok\<close> percent; response time 12 ms and pool usage 20 percent are below
  their warning levels. \<open>mon_92\<close> is a fresh monitor after one update at 92 percent,
  \<open>mon_96\<close> that monitor after a second update at 96 percent one second later;
  \<open>mon_92_again\<close> and \<open>mon_92_later\<close> are two more updates at 92 percent, one and
  five minutes after the first.
\<close>

definition sr_data :: "int \<Rightarrow> status_data" where
  "sr_data ok =
     \<lparr>sd_status = Some ''healthy'', sd_connection_test_time_ms = Some 12,
      pool_max_connections = Some 10, pool_active_connections = Some 2,
      sd_connection_pool_size = Some 10, sd_total_tables = Some 3, sd_error = None,
      md_total_queries = Some 100, md_failed_queries = Some (100 - ok),
      md_successful_queries = Some ok, md_avg_query_time = Some 5,
      md_uptime_seconds = Some 60, md_last_error = None\<rparr>"

definition sr_threshold :: HealthThreshold where
  "sr_threshold =
     \<lparr>warning_level = 95, critical_level = 90,
      threshold_description = ''Query success rate percentage (reversed - lower is worse)''\<rparr>"

definition mon_92 :: QuestDBHealthMonitor where
  "mon_92 = update_status 1000000 1000001 1000002 (sr_data 92) (init_monitor 0)"

definition mon_96 :: QuestDBHealthMonitor where
  "mon_96 = update_status 2000000 2000001 2000002 (sr_data 96) mon_92"









section \<open>Properties of the feed registry\<close>

lemma feeds_update_registry_metrics [simp]:
  "feeds (update_registry_metrics now r) = feeds r"
  by (simp add: update_registry_metrics_def Let_def)

lemma map_of_set_feed [simp]:
  "map_of (feeds (set_feed n i r)) k = (if k = n then Some i else map_of (feeds r) k)"
  by (simp add: set_feed_def update_conv')

lemma reg_one_feed:
  "map_of (feeds reg_one) ''F'' = Some (new_feed_info 0 (demo_inst ''F'' ''high''))"
  by code_simp


subsection \<open>Failure counting and status (C2)\<close>

text \<open>
  C2, as amended. For a registered feed, \<open>record_feed_error\<close> adds one to the
  consecutive-failure count and then sets the status from the new count: Unhealthy from
  5 on, Degraded at 3 and 4, unchanged below 3. \<open>update_feed_status\<close> with a metrics
  dictionary whose \<open>success\<close> entry is falsy also adds one to the count, but the status
  it leaves is the status the caller passed, whatever the count; with a truthy
  \<open>success\<close> entry it resets the count to 0.
\<close>

theorem consecutive_failure_tracking:
  assumes "map_of (feeds r) n = Some info"
  shows "feed_failures (record_feed_error now n err r) n = Some (consecutive_failures info + 1)
    \<and> feed_status (record_feed_error now n err r) n =
        Some (if consecutive_failures info + 1 \<ge> 5 then UNHEALTHY
              else if consecutive_failures info + 1 \<ge> 3 then DEGRADED
              else status info)
    \<and> (map_of m ''success'' = Some v \<and> \<not> truthy v \<longrightarrow>
         feed_failures (update_feed_status now n st (Some m) r) n
           = Some (consecutive_failures info + 1)
         \<and> feed_status (update_feed_status now n st (Some m) r) n = Some st)
    \<and> (map_of m ''success'' = Some v \<and> truthy v \<longrightarrow>
         feed_failures (update_feed_status now n st (Some m) r) n = Some 0)"
proof (intro conjI impI)
  show "feed_failures (record_feed_error now n err r) n = Some (consecutive_failures info + 1)"
    using assms by (simp add: feed_failures_def record_feed_error_def Let_def)
  show "feed_status (record_feed_error now n err r) n =
        Some (if consecutive_failures info + 1 \<ge> 5 then UNHEALTHY
              else if consecutive_failures info + 1 \<ge> 3 then DEGRADED
              else status info)"
    using assms by (simp add: feed_status_def record_feed_error_def Let_def)
next
  assume a: "map_of m ''success'' = Some v \<and> \<not> truthy v"
  then have ne: "m \<noteq> []" by auto
  show "feed_failures (update_feed_status now n st (Some m) r) n
           = Some (consecutive_failures info + 1)"
    using assms a ne by (simp add: feed_failures_def update_feed_status_def Let_def)
  show "feed_status (update_feed_status now n st (Some m) r) n = Some st"
    using assms a ne by (simp add: feed_status_def update_feed_status_def Let_def)
next
  assume a: "map_of m ''success'' = Some v \<and> truthy v"
  then have ne: "m \<noteq> []" by auto
  show "feed_failures (update_feed_status now n st (Some m) r) n = Some 0"
    using assms a ne by (simp add: feed_failures_def update_feed_status_def Let_def)
qed

text \<open>
  The amended statement at the feed \<open>F\<close> of \<open>reg_one\<close>: one recorded error, one
  failed run reported as Running, one successful run.
\<close>

theorem consecutive_failure_tracking_witness:
  "feed_failures (record_feed_error 7 ''F'' ''e'' reg_one) ''F'' = Some 1
   \<and> feed_status (record_feed_error 7 ''F'' ''e'' reg_one) ''F'' = Some REGISTERED
   \<and> feed_failures (update_feed_status 7 ''F'' RUNNING (Some [(''success'', MBool False)]) reg_one) ''F'' = Some 1
   \<and> feed_status (update_feed_status 7 ''F'' RUNNING (Some [(''success'', MBool False)]) reg_one) ''F'' = Some RUNNING
   \<and> feed_failures (update_feed_status 7 ''F'' HEALTHY (Some [(''success'', MBool True)]) reg_one) ''F'' = Some 0"
  using consecutive_failure_tracking [OF reg_one_feed, of 7 "''e''" "[(''success'', MBool False)]" "MBool False" RUNNING]
    consecutive_failure_tracking [OF reg_one_feed, of 7 "''e''" "[(''success'', MBool True)]" "MBool True" HEALTHY]
  by (simp add: new_feed_info_def)

text \<open>
  C2 as stated fails on the \<open>update_feed_status\<close> path: five failed runs in a row,
  each reported with status Running, leave the count at 5 and the status Running, not
  Unhealthy.
\<close>

theorem five_failed_runs_still_running:
  "feed_failures (report_failure (report_failure (report_failure (report_failure (report_failure reg_one))))) ''F'' = Some 5
   \<and> feed_status (report_failure (report_failure (report_failure (report_failure (report_failure reg_one))))) ''F'' = Some RUNNING"
  by code_simp

subsection \<open>Health score (C3)\<close>

lemma score_shape:
  "(if a then s - 20 else if b then s - 10 else s) - (k::rat)
     = s - (if a then 20 else if b then 10 else 0) - k"
  by simp

text \<open>
  C3. The health score of a metrics dictionary is 100 minus half of
  (100 - success rate), minus 20 if the execution time is over 10000 ms, else 10 if it is
  over 5000 ms, minus the smaller of 5 times the error count and 30, clamped to the
  interval from 0 to 100; absent keys count as success rate 100, execution time 0 and
  error count 0. Numbers are exact rationals here, so the rounding of Python's floats is
  not part of the statement.
\<close>

theorem health_score_formula_clamped:
  "calculate_health_score m =
     max 0 (min 100
       (100 - (1 / 2) * (100 - get_num m ''success_rate'' 100)
            - (if get_num m ''execution_time_ms'' 0 > 10000 then 20
               else if get_num m ''execution_time_ms'' 0 > 5000 then 10 else 0)
            - min (5 * get_num m ''error_count'' 0) 30))
   \<and> 0 \<le> calculate_health_score m \<and> calculate_health_score m \<le> 100"
proof -
  have c1: "(100 - get_num m ''success_rate'' 100) * (1 / 2)
              = (1 / 2) * (100 - get_num m ''success_rate'' 100)"
    by (rule mult.commute)
  have c2: "get_num m ''error_count'' 0 * 5 = 5 * get_num m ''error_count'' 0"
    by (rule mult.commute)
  have eq: "calculate_health_score m =
     max 0 (min 100
       (100 - (1 / 2) * (100 - get_num m ''success_rate'' 100)
            - (if get_num m ''execution_time_ms'' 0 > 10000 then 20
               else if get_num m ''execution_time_ms'' 0 > 5000 then 10 else 0)
            - min (5 * get_num m ''error_count'' 0) 30))"
    unfolding calculate_health_score_def Let_def score_shape c1 c2 ..
  have lo: "0 \<le> calculate_health_score m"
    unfolding calculate_health_score_def Let_def by (rule max.cobounded1)
  have hi: "calculate_health_score m \<le> 100"
    unfolding calculate_health_score_def Let_def
    by (rule max.boundedI) (simp_all only: min.cobounded1 zero_le_numeral)
  from eq lo hi show ?thesis by blast
qed

text \<open>
  The formula at three dictionaries: a moderate one (90 percent, 6 seconds, 2 errors:
  100 - 5 - 10 - 10), one far below the range and one far above it.
\<close>

theorem health_score_formula_clamped_witness:
  "calculate_health_score
     [(''success_rate'', MNum 90), (''execution_time_ms'', MNum 6000), (''error_count'', MNum 2)] = 75
   \<and> calculate_health_score
     [(''success_rate'', MNum (- 1000000)), (''execution_time_ms'', MNum 99999), (''error_count'', MNum 1000)] = 0
   \<and> calculate_health_score
     [(''success_rate'', MNum 1000000), (''error_count'', MNum (- 1000))] = 100"
  using health_score_formula_clamped
      [of "[(''success_rate'', MNum 90), (''execution_time_ms'', MNum 6000), (''error_count'', MNum 2)]"]
    health_score_formula_clamped
      [of "[(''success_rate'', MNum (- 1000000)), (''execution_time_ms'', MNum 99999), (''error_count'', MNum 1000)]"]
    health_score_formula_clamped
      [of "[(''success_rate'', MNum 1000000), (''error_count'', MNum (- 1000))]"]
  by (simp add: get_num_def)

subsection \<open>Start and stop order (C4)\<close>

text \<open>
  After \<open>_update_startup_order\<close> the startup order is the critical, high, medium and
  low lists in this order, and reversing the stored shutdown order gives the startup
  order back. \<open>stop_all_feeds\<close> iterates the reversed shutdown order, so it walks the
  feeds in startup order.
\<close>

lemma startup_order_by_class:
  "update_startup_order r = Inr r' \<Longrightarrow>
     \<exists>c h m l. feed_priorities r ''critical'' = Some c \<and> feed_priorities r ''high'' = Some h
       \<and> feed_priorities r ''medium'' = Some m \<and> feed_priorities r ''low'' = Some l
       \<and> startup_order r' = c @ h @ m @ l"
  by (auto simp: update_startup_order_def Let_def split: option.splits)

lemma rev_shutdown_order:
  "update_startup_order r = Inr r' \<Longrightarrow> rev (shutdown_order r') = startup_order r'"
  by (auto simp: update_startup_order_def Let_def split: option.splits)

text \<open>
  C4 at its own scenario. With A (critical), B (medium) and C (critical) registered in
  this order, the startup order is A, C, B and \<open>start_all_feeds\<close> starts A, C, B: both
  critical feeds before the medium one. \<open>stop_all_feeds\<close> then stops A, C, B as
  well, the same order and not its reverse B, C, A.
\<close>

theorem stop_all_same_order_as_start:
  "startup_order reg_abc = [''A'', ''C'', ''B'']
   \<and> calls reg_abc_started = [(''A'', Start), (''C'', Start), (''B'', Start)]
   \<and> calls reg_abc_stopped =
       [(''A'', Start), (''C'', Start), (''B'', Start), (''A'', Stop), (''C'', Stop), (''B'', Stop)]"
  by code_simp

subsection \<open>Start and stop failures (C5)\<close>




subsection \<open>Heartbeat timeout (C9)\<close>

text \<open>
  C9, as amended. For a registered feed whose last heartbeat is older than the
  heartbeat timeout, a run of the health check leaves the feed Unhealthy when its status
  was Running or Healthy (or already Unhealthy); a feed in any other status keeps that
  status.
\<close>

theorem heartbeat_timeout_marks_unhealthy:
  assumes "map_of (feeds r) n = Some info"
      and "last_heartbeat info < now - heartbeat_timeout r * 1000000"
  shows "feed_status (perform_health_checks now r) n =
           Some (if status info = RUNNING \<or> status info = HEALTHY then UNHEALTHY else status info)"
  using assms
  by (simp add: feed_status_def perform_health_checks_def Let_def map_of_map check_heartbeat_def)

lemma reg_abc_started_A:
  "map_of (feeds reg_abc_started) ''A'' =
     Some ((new_feed_info 0 (demo_inst ''A'' ''critical''))\<lparr>status := RUNNING, start_time := Some 0\<rparr>)"
  by code_simp

lemma reg_abc_started_timeout: "heartbeat_timeout reg_abc_started = 300"
  by code_simp

text \<open>
  The amended statement at the running feed \<open>A\<close>, last heard of at time 0, checked 400
  seconds later with the default timeout of 300 seconds.
\<close>

theorem heartbeat_timeout_marks_unhealthy_witness:
  "feed_status (perform_health_checks 400000000 reg_abc_started) ''A'' = Some UNHEALTHY"
  using heartbeat_timeout_marks_unhealthy [OF reg_abc_started_A, of 400000000]
  by (simp add: reg_abc_started_timeout new_feed_info_def)

text \<open>
  C9 as stated fails for a Degraded feed: \<open>F\<close> is Degraded after three recorded errors
  at time 0, and the health check 400 seconds later, 100 seconds past the timeout, leaves
  it Degraded.
\<close>

theorem degraded_feed_stays_degraded:
  "feed_status reg_degraded ''F'' = Some DEGRADED
   \<and> heartbeat_timeout reg_degraded = 300
   \<and> feed_status (perform_health_checks 400000000 reg_degraded) ''F'' = Some DEGRADED"
  by code_simp

section \<open>Properties of the schema manager\<close>

subsection \<open>Validating twice (C8)\<close>

lemma sample_rt_roundtrip: "int_float_roundtrip sample_rt"
  unfolding int_float_roundtrip_def
proof (intro allI impI)
  fix f i assume a: "int_of_float sample_rt f = Inr i"
  then obtain q where f: "f = Finite q" and i: "i = truncate_rat q"
    by (cases f) (auto simp: sample_rt_def)
  have "truncate_rat (of_int i) = i" by (simp add: truncate_rat_def)
  then show "\<exists>g. float_of_int sample_rt i = Some g \<and> int_of_float sample_rt g = Inr i"
    by (simp add: sample_rt_def)
qed

lemma convert_value_not_none:
  "\<not> is_none v \<Longrightarrow> convert_value rt t v = Inr v' \<Longrightarrow> \<not> is_none v'"
  by (cases t; cases v)
     (auto simp: convert_value_def is_none_def isinstance_str_def isinstance_date_def
        isinstance_datetime_def split: option.splits sum.splits if_splits)

lemma convert_value_idem_int:
  assumes rt: "int_float_roundtrip rt"
      and t: "t = LONG \<or> t = INT'"
      and c: "convert_value rt t v = Inr v'"
  shows "convert_value rt t v' = Inr v'"
proof -
  from c t obtain f i where f: "py_float rt v = Inr f" and i: "py_int rt f = Inr i"
      and v': "v' = PInt i"
    by (auto simp: convert_value_def split: sum.splits)
  from i have "int_of_float rt f = Inr i" by (auto simp: py_int_def split: sum.splits)
  with rt obtain g where "float_of_int rt i = Some g" "int_of_float rt g = Inr i"
    unfolding int_float_roundtrip_def by blast
  then show ?thesis using t v' by (auto simp: convert_value_def py_float_def py_int_def)
qed

lemma convert_value_idem_other:
  assumes t: "t \<noteq> LONG" "t \<noteq> INT'"
      and c: "convert_value rt t v = Inr v'"
  shows "convert_value rt t v' = Inr v'"
  using assms
  by (cases t; cases v)
     (auto simp: convert_value_def py_float_def py_str_def isinstance_str_def isinstance_date_def
        isinstance_datetime_def split: option.splits sum.splits if_splits)

lemma convert_value_idem:
  "int_float_roundtrip rt \<Longrightarrow> convert_value rt t v = Inr v' \<Longrightarrow> convert_value rt t v' = Inr v'"
  using convert_value_idem_int convert_value_idem_other by blast

lemma py_eq_refl: "\<not> is_nan rt v \<Longrightarrow> py_eq rt v v"
  by (cases v) (auto simp: py_eq_def is_nan_def)

text \<open>
  C8, as amended. For every column definition and every value that \<open>validate_value\<close>
  accepts, validating the result again returns that same result; and the two results are
  equal under Python's \<open>==\<close> unless the result is a NaN float, which \<open>==\<close> does
  not equate with itself. The interpreter is assumed to convert the truncation of a float
  back to a float with the same truncation (used for LONG and INT columns, where
  \<open>int(float(.))\<close> runs again on the integer).
\<close>

theorem validate_value_idempotent:
  assumes "int_float_roundtrip rt"
      and "validate_value rt c v = Inr v'"
  shows "validate_value rt c v' = Inr v' \<and> (\<not> is_nan rt v' \<longrightarrow> py_eq rt v' v')"
proof -
  have "validate_value rt c v' = Inr v'"
  proof (cases "is_none v")
    case True
    with assms(2) have "v' = PNone" "nullable c"
      by (auto simp: validate_value_def split: if_splits)
    then show ?thesis by (simp add: validate_value_def is_none_def)
  next
    case False
    with assms(2) have cv: "convert_value rt (col_type c) v = Inr v'"
      by (auto simp: validate_value_def split: sum.splits if_splits)
    from convert_value_not_none [OF False cv] convert_value_idem [OF assms(1) cv]
    show ?thesis by (simp add: validate_value_def)
  qed
  then show ?thesis using py_eq_refl by blast
qed

text \<open>
  The amended statement at the spec's column \<open>price DOUBLE NOT NULL\<close> and the string
  \<open>12.5\<close>.
\<close>

theorem validate_value_idempotent_witness:
  "validate_value sample_rt price_col (PStr ''12.5'') = Inr (PFloat (Finite (25 / 2)))
   \<and> validate_value sample_rt price_col (PFloat (Finite (25 / 2))) = Inr (PFloat (Finite (25 / 2)))
   \<and> py_eq sample_rt (PFloat (Finite (25 / 2))) (PFloat (Finite (25 / 2)))"
proof -
  have a: "validate_value sample_rt price_col (PStr ''12.5'') = Inr (PFloat (Finite (25 / 2)))"
    by (simp add: validate_value_def convert_value_def py_float_def sample_rt_def price_col_def
          is_none_def)
  have n: "\<not> is_nan sample_rt (PFloat (Finite (25 / 2)))"
    by (simp add: is_nan_def sample_rt_def)
  from validate_value_idempotent [OF sample_rt_roundtrip a] a n show ?thesis by simp
qed

text \<open>
  C8 as stated fails at a NaN: the column \<open>price\<close> accepts the string \<open>nan\<close> and
  returns a NaN, accepts that NaN again and returns it, and the two results are not
  \<open>==\<close>.
\<close>

theorem nan_not_equal_to_itself:
  "validate_value sample_rt price_col (PStr ''nan'') = Inr (PFloat NaN)
   \<and> validate_value sample_rt price_col (PFloat NaN) = Inr (PFloat NaN)
   \<and> \<not> py_eq sample_rt (PFloat NaN) (PFloat NaN)"
  by (simp add: validate_value_def convert_value_def py_float_def sample_rt_def price_col_def
        is_none_def py_eq_def)

subsection \<open>Keys and defaults of a validated record (C10)\<close>

lemma validate_columns_dom:
  "validate_columns rt cs record acc = Inr out \<Longrightarrow> dom out = dom acc \<union> set (map col_name cs)"
proof (induction cs arbitrary: acc)
  case Nil
  then show ?case by simp
next
  case (Cons c cs)
  then show ?case by (auto simp: Let_def split: sum.splits)
qed

lemma validate_columns_other:
  "validate_columns rt cs record acc = Inr out \<Longrightarrow> k \<notin> set (map col_name cs) \<Longrightarrow> out k = acc k"
proof (induction cs arbitrary: acc)
  case Nil
  then show ?case by simp
next
  case (Cons c cs)
  then show ?case by (auto simp: Let_def split: sum.splits)
qed

lemma validate_columns_value:
  "validate_columns rt cs record acc = Inr out \<Longrightarrow> distinct (map col_name cs) \<Longrightarrow> c \<in> set cs \<Longrightarrow>
     \<exists>v. validate_value rt c
            (if is_none (dict_get record (col_name c)) \<and> \<not> is_none (default_value c)
             then default_value c else dict_get record (col_name c)) = Inr v
         \<and> out (col_name c) = Some v"
proof (induction cs arbitrary: acc)
  case Nil
  then show ?case by simp
next
  case (Cons a cs)
  show ?case
  proof (cases "c = a")
    case True
    from Cons.prems(1) obtain v where
      v: "validate_value rt a
            (if is_none (dict_get record (col_name a)) \<and> \<not> is_none (default_value a)
             then default_value a else dict_get record (col_name a)) = Inr v"
      and rest: "validate_columns rt cs record (acc(col_name a \<mapsto> v)) = Inr out"
      by (auto simp: Let_def split: sum.splits)
    from Cons.prems(2) have "col_name a \<notin> set (map col_name cs)" by simp
    from validate_columns_other [OF rest this] have "out (col_name a) = Some v" by simp
    with v True show ?thesis by blast
  next
    case False
    with Cons.prems(3) have c: "c \<in> set cs" by simp
    from Cons.prems(1) obtain acc' where "validate_columns rt cs record acc' = Inr out"
      by (auto simp: Let_def split: sum.splits)
    from Cons.IH [OF this _ c] Cons.prems(2) show ?thesis by simp
  qed
qed

lemma validate_schema_distinct:
  "validate_schema sch = None \<Longrightarrow> distinct (map col_name (columns sch))"
  by (auto simp: validate_schema_def card_distinct split: if_splits option.splits)

text \<open>
  C10. For every table schema (one the constructor's \<open>_validate_schema\<close> accepts) and
  every raw record, when \<open>validate_record\<close> succeeds the keys of the returned
  dictionary are exactly the schema's column names, so a field of the record that names
  no column is dropped. For a column whose field is absent from the record: if the column
  has a default, the default takes the place of the field and the dictionary holds what
  \<open>validate_value\<close> returns for it; if it has none, the column is nullable and the
  dictionary holds \<open>None\<close>.
\<close>

theorem validate_record_keys_and_defaults:
  assumes "validate_schema sch = None"
      and "validate_record rt sch record = Inr out"
  shows "dom out = set (map col_name (columns sch))
    \<and> (\<forall>c \<in> set (columns sch). record (col_name c) = None \<longrightarrow>
          (if is_none (default_value c)
           then nullable c \<and> out (col_name c) = Some PNone
           else \<exists>v. validate_value rt c (default_value c) = Inr v \<and> out (col_name c) = Some v))"
proof (intro conjI ballI impI)
  from assms(2) show "dom out = set (map col_name (columns sch))"
    using validate_columns_dom [of rt "columns sch" "record" Map.empty out]
    by (simp add: validate_record_def)
next
  fix c assume c: "c \<in> set (columns sch)" and absent: "record (col_name c) = None"
  from absent have g: "dict_get record (col_name c) = PNone" by (simp add: dict_get_def)
  from assms(2) have vc: "validate_columns rt (columns sch) record Map.empty = Inr out"
    by (simp add: validate_record_def)
  from validate_columns_value [OF vc validate_schema_distinct [OF assms(1)] c]
  obtain v where v0: "validate_value rt c
            (if is_none (dict_get record (col_name c)) \<and> \<not> is_none (default_value c)
             then default_value c else dict_get record (col_name c)) = Inr v"
    and o: "out (col_name c) = Some v"
    by blast
  have n: "is_none (dict_get record (col_name c))" using g by (simp add: is_none_def)
  from v0 n g have v: "validate_value rt c
      (if \<not> is_none (default_value c) then default_value c else PNone) = Inr v"
    by (cases "is_none (default_value c)") simp_all
  show "if is_none (default_value c)
        then nullable c \<and> out (col_name c) = Some PNone
        else \<exists>v. validate_value rt c (default_value c) = Inr v \<and> out (col_name c) = Some v"
  proof (cases "is_none (default_value c)")
    case True
    with v have "validate_value rt c PNone = Inr v" by simp
    then have "nullable c \<and> v = PNone"
      by (auto simp: validate_value_def is_none_def split: if_splits)
    with o True show ?thesis by simp
  next
    case False
    with v o show ?thesis by auto
  qed
qed

lemma trades_schema_valid: "validate_schema trades_schema = None"
  by (simp add: validate_schema_def trades_schema_def ts_col_def price_col_def qty_col_def
        resolved_col_def card_insert_if)

lemma good_record_validated:
  "validate_record sample_rt trades_schema good_record = Inr good_validated"
  by (simp add: validate_record_def trades_schema_def ts_col_def price_col_def qty_col_def
        resolved_col_def good_record_def good_validated_def Let_def dict_get_def is_none_def
        validate_value_def convert_value_def py_float_def sample_rt_def fun_upd_twist)

lemma bad_record_rejected:
  "isl (validate_record sample_rt trades_schema bad_record)"
  by (simp add: validate_record_def trades_schema_def ts_col_def price_col_def qty_col_def
        resolved_col_def bad_record_def Let_def dict_get_def is_none_def
        validate_value_def convert_value_def py_float_def sample_rt_def)

text \<open>
  The statement at the sample table and the accepted sample record: \<open>validate_record\<close>
  returns a dictionary with the four column names as keys, the field \<open>venue\<close> of the
  record is dropped, \<open>price\<close> is coerced to the float 12.5, the absent \<open>qty\<close> is
  null and the absent \<open>resolved\<close> is at its default; the record whose price is
  \<open>abc\<close> is rejected.
\<close>

theorem validate_record_keys_and_defaults_witness:
  "validate_record sample_rt trades_schema good_record = Inr good_validated
   \<and> dom good_validated = {''timestamp'', ''price'', ''qty'', ''resolved''}
   \<and> good_record ''venue'' = Some (PStr ''X'') \<and> good_validated ''venue'' = None
   \<and> good_validated ''price'' = Some (PFloat (Finite (25 / 2)))
   \<and> good_validated ''qty'' = Some PNone
   \<and> good_validated ''resolved'' = Some (PBool False)
   \<and> isl (validate_record sample_rt trades_schema bad_record)"
  using validate_record_keys_and_defaults [OF trades_schema_valid good_record_validated]
    good_record_validated bad_record_rejected
  by (auto simp: trades_schema_def ts_col_def price_col_def qty_col_def resolved_col_def
        good_record_def good_validated_def is_none_def)

section \<open>Properties of the store manager\<close>

subsection \<open>Counts of a batch insert (C1)\<close>

lemma validate_data_counts:
  "validate_data rt sch data (vd, ins, failed) = (vd', ins', failed') \<Longrightarrow>
     ins' = ins + int (valid_count rt sch data)
     \<and> failed' = failed + int (invalid_count rt sch data)
     \<and> length vd' = length vd + valid_count rt sch data"
proof (induction data arbitrary: vd ins failed)
  case Nil
  then show ?case by (simp add: valid_count_def invalid_count_def)
next
  case (Cons r rs)
  show ?case
  proof (cases "validate_record rt sch r")
    case (Inl e)
    with Cons.prems have "validate_data rt sch rs (vd, ins, failed + 1) = (vd', ins', failed')"
      by simp
    from Cons.IH [OF this] Inl show ?thesis
      by (simp add: valid_count_def invalid_count_def)
  next
    case (Inr v)
    with Cons.prems have "validate_data rt sch rs (vd @ [v], ins + 1, failed) = (vd', ins', failed')"
      by simp
    from Cons.IH [OF this] Inr show ?thesis
      by (simp add: valid_count_def invalid_count_def)
  qed
qed

lemma counts_sum: "valid_count rt sch data + invalid_count rt sch data = length data"
  unfolding valid_count_def invalid_count_def
  using sum_length_filter_compl [of "\<lambda>r. isl (validate_record rt sch r)" data]
  by simp

lemma valid_count_zero:
  "valid_count rt sch data = 0 \<longleftrightarrow> (\<forall>r \<in> set data. isl (validate_record rt sch r))"
  by (auto simp: valid_count_def filter_empty_conv)

lemma batch_failure_counts:
  "records_inserted (fst (batch_failure t0 t1 i f e mgr)) = i
   \<and> records_failed (fst (batch_failure t0 t1 i f e mgr)) = f"
  by (simp add: batch_failure_def)

lemma batch_insert_counts:
  assumes s: "schemas mgr tbl = Some sch" and d: "data \<noteq> []"
  shows "records_inserted (fst (execute_batch_insert rt env t0 t1 tbl data bs mgr))
           = int (valid_count rt sch data)
       \<and> records_failed (fst (execute_batch_insert rt env t0 t1 tbl data bs mgr))
           = int (invalid_count rt sch data)"
proof -
  obtain vd ins failed where v: "validate_data rt sch data ([], 0, 0) = (vd, ins, failed)"
    by (cases "validate_data rt sch data ([], 0, 0)") auto
  from validate_data_counts [OF v]
  have c: "ins = int (valid_count rt sch data)" "failed = int (invalid_count rt sch data)"
    "length vd = valid_count rt sch data" by simp_all
  from d obtain r rs where dd: "data = r # rs" by (cases data) auto
  show ?thesis
  proof (cases vd)
    case Nil
    with c have z: "valid_count rt sch data = 0" by simp
    with counts_sum [of rt sch data] have "invalid_count rt sch data = length data" by simp
    with Nil z v s dd show ?thesis
      by (simp add: execute_batch_insert_def Let_def)
  next
    case (Cons x xs)
    from Cons v s dd c show ?thesis
      by (simp add: execute_batch_insert_def Let_def batch_failure_def
            split: prod.splits outcome.splits)
  qed
qed

text \<open>
  C1, as amended. For every call of \<open>execute_batch_insert\<close> with a non-empty list of
  N records, whatever the connection pool and the driver do and whatever the batch size:
  when a schema is registered for the table, the result satisfies
  \<open>records_inserted + records_failed = N\<close>, and \<open>records_inserted = 0\<close> holds
  exactly when every one of the N records failed schema validation; when no schema is
  registered for the table, the call fails before it validates anything and the result has
  \<open>success = False\<close>, \<open>records_inserted = 0\<close>, \<open>records_failed = 0\<close> and the
  message that no schema was found for the table.
\<close>

theorem batch_insert_accounts_for_every_record:
  assumes "data \<noteq> []"
  shows "(schemas mgr tbl = Some sch \<longrightarrow>
            records_inserted (fst (execute_batch_insert rt env t0 t1 tbl data bs mgr))
              + records_failed (fst (execute_batch_insert rt env t0 t1 tbl data bs mgr))
              = int (length data)
            \<and> (records_inserted (fst (execute_batch_insert rt env t0 t1 tbl data bs mgr)) = 0
                 \<longleftrightarrow> (\<forall>r \<in> set data. isl (validate_record rt sch r))))
       \<and> (schemas mgr tbl = None \<longrightarrow>
            success (fst (execute_batch_insert rt env t0 t1 tbl data bs mgr)) = False
            \<and> records_inserted (fst (execute_batch_insert rt env t0 t1 tbl data bs mgr)) = 0
            \<and> records_failed (fst (execute_batch_insert rt env t0 t1 tbl data bs mgr)) = 0
            \<and> error_message (fst (execute_batch_insert rt env t0 t1 tbl data bs mgr))
                = Some (''No schema found for table '' @ quoted tbl))"
proof (intro conjI impI)
  assume s: "schemas mgr tbl = Some sch"
  note c = batch_insert_counts [OF s assms, of rt env t0 t1 bs]
  have "int (valid_count rt sch data) + int (invalid_count rt sch data) = int (length data)"
    using counts_sum [of rt sch data] by linarith
  with c show "records_inserted (fst (execute_batch_insert rt env t0 t1 tbl data bs mgr))
              + records_failed (fst (execute_batch_insert rt env t0 t1 tbl data bs mgr))
              = int (length data)"
    by simp
  from c valid_count_zero [of rt sch data]
  show "records_inserted (fst (execute_batch_insert rt env t0 t1 tbl data bs mgr)) = 0
                 \<longleftrightarrow> (\<forall>r \<in> set data. isl (validate_record rt sch r))"
    by simp
next
  assume n: "schemas mgr tbl = None"
  from assms obtain r rs where d: "data = r # rs" by (cases data) auto
  from n d show "success (fst (execute_batch_insert rt env t0 t1 tbl data bs mgr)) = False"
    and "records_inserted (fst (execute_batch_insert rt env t0 t1 tbl data bs mgr)) = 0"
    and "records_failed (fst (execute_batch_insert rt env t0 t1 tbl data bs mgr)) = 0"
    and "error_message (fst (execute_batch_insert rt env t0 t1 tbl data bs mgr))
                = Some (''No schema found for table '' @ quoted tbl)"
    by (simp_all add: execute_batch_insert_def Let_def batch_failure_def)
qed

lemma trades_manager_schema: "schemas trades_manager ''trades'' = Some trades_schema"
  by (simp add: trades_manager_def new_manager_def)

lemma empty_manager_schema: "schemas empty_manager ''trades'' = None"
  by (simp add: empty_manager_def new_manager_def)

text \<open>
  The amended statement at the sample table: a batch of one rejected and one accepted
  record gives 1 and 1, a batch of the rejected record alone gives 0 and 1; and the
  accepted record sent to a manager without schemas gives a failure with 0 and 0.
\<close>

theorem batch_insert_accounts_for_every_record_witness:
  "records_inserted (fst (execute_batch_insert sample_rt ok_env 0 1 ''trades''
       [bad_record, good_record] 1000 trades_manager)) = 1
   \<and> records_failed (fst (execute_batch_insert sample_rt ok_env 0 1 ''trades''
       [bad_record, good_record] 1000 trades_manager)) = 1
   \<and> records_inserted (fst (execute_batch_insert sample_rt ok_env 0 1 ''trades''
       [bad_record] 1000 trades_manager)) = 0
   \<and> records_failed (fst (execute_batch_insert sample_rt ok_env 0 1 ''trades''
       [bad_record] 1000 trades_manager)) = 1
   \<and> success (fst (execute_batch_insert sample_rt ok_env 0 1 ''trades''
       [good_record] 1000 empty_manager)) = False
   \<and> records_failed (fst (execute_batch_insert sample_rt ok_env 0 1 ''trades''
       [good_record] 1000 empty_manager)) = 0"
proof -
  have g: "\<not> isl (validate_record sample_rt trades_schema good_record)"
    by (simp add: good_record_validated)
  have ne: "[bad_record, good_record] \<noteq> []" "[bad_record] \<noteq> []" "[good_record] \<noteq> []"
    by simp_all
  from batch_insert_accounts_for_every_record
         [OF ne(1), of trades_manager "''trades''" trades_schema sample_rt ok_env 0 1 1000]
       batch_insert_accounts_for_every_record
         [OF ne(2), of trades_manager "''trades''" trades_schema sample_rt ok_env 0 1 1000]
       batch_insert_accounts_for_every_record
         [OF ne(3), of empty_manager "''trades''" trades_schema sample_rt ok_env 0 1 1000]
       batch_insert_counts
         [OF trades_manager_schema ne(1), of sample_rt ok_env 0 1 1000]
       g bad_record_rejected trades_manager_schema empty_manager_schema
  show ?thesis by (simp add: valid_count_def invalid_count_def)
qed

text \<open>
  C1 as stated fails when no schema is registered for the table: a batch of one record,
  which the table's schema would accept, comes back as a failure with
  \<open>records_inserted = 0\<close> and \<open>records_failed = 0\<close>, so the counts add up to 0 and
  not to 1, and no record failed validation.
\<close>

theorem missing_schema_counts_nothing:
  "success (fst (execute_batch_insert sample_rt ok_env 0 1 ''trades''
       [good_record] 1000 empty_manager)) = False
   \<and> records_inserted (fst (execute_batch_insert sample_rt ok_env 0 1 ''trades''
       [good_record] 1000 empty_manager)) = 0
   \<and> records_failed (fst (execute_batch_insert sample_rt ok_env 0 1 ''trades''
       [good_record] 1000 empty_manager)) = 0
   \<and> error_message (fst (execute_batch_insert sample_rt ok_env 0 1 ''trades''
       [good_record] 1000 empty_manager)) = Some (''No schema found for table '' @ quoted ''trades'')
   \<and> length [good_record] = 1
   \<and> validate_record sample_rt trades_schema good_record = Inr good_validated"
  by (simp add: execute_batch_insert_def empty_manager_def new_manager_def batch_failure_def
        good_record_validated)

section \<open>Properties of the store health monitor\<close>







lemma make_alert_fields [simp]:
  "alert_type (make_alert t k v sev th) = k" "timestamp (make_alert t k v sev th) = t"
  "resolved (make_alert t k v sev th) = False" "severity (make_alert t k v sev th) = sev"
  by (simp_all add: make_alert_def)






























lemma update_thresholds_fields:
  "alert_objects (update_thresholds cfgs mon) = alert_objects mon
   \<and> active_alerts (update_thresholds cfgs mon) = active_alerts mon"
  by (induction cfgs mon rule: update_thresholds.induct) (simp_all split: option.splits)

lemma update_thresholds_inv:
  "monitor_inv mon \<Longrightarrow> monitor_inv (update_thresholds cfgs mon)"
  by (simp add: monitor_inv_def update_thresholds_fields)

subsection \<open>Sample runs\<close>

lemmas monitor_eval =
  update_status_def get_or_def health_status_of_def metrics_of_status_def
  count_failures_def check_alert_conditions_def checks_of_def check_one_def in_cooldown_def
  alert_severity_def default_thresholds_def check_resolved_alerts_def
  resolve_one_def metric_attr_def deref_def add_to_history_def
  calculate_pool_usage_def calculate_success_rate_def Let_def

lemma mon_92_state:
  "active_alerts mon_92 = [(''success_rate'', 0)]"
  "alert_objects mon_92 = [make_alert 1000001 ''success_rate'' 92 ''warning'' sr_threshold]"
  "thresholds mon_92 = default_thresholds"
  "alert_cooldown_minutes mon_92 = 5"
  "alerts (current_status mon_92) = [0]"
  "success_rate (current_status mon_92) = 92"
  by (simp_all add: mon_92_def sr_data_def init_monitor_def sr_threshold_def monitor_eval)

lemma mon_96_state:
  "active_alerts mon_96 = []"
  "alert_objects mon_96 =
     [(make_alert 1000001 ''success_rate'' 92 ''warning'' sr_threshold)
        \<lparr>resolved := True, resolved_at := Some 2000002\<rparr>]"
  "alerts (current_status mon_96) = []"
  "success_rate (current_status mon_96) = 96"
  by (simp_all add: mon_96_def sr_data_def mon_92_state sr_threshold_def monitor_eval)



lemma sr_default_threshold: "default_thresholds ''success_rate'' = Some sr_threshold"
  by (simp add: default_thresholds_def sr_threshold_def)










subsection \<open>Alert cooldown (C6)\<close>




subsection \<open>A warning that resolves (C7)\<close>

text \<open>
  C7. A fresh monitor has the success-rate threshold with warning level 95 and critical
  level 90. An update with a success rate of 92 percent leaves exactly one active alert:
  it is filed under \<open>success_rate\<close>, its type is \<open>success_rate\<close>, its severity is
  \<open>warning\<close> and it is not resolved. A following update with a success rate of 96
  percent leaves no active alert, and the alert object of the first update is marked
  resolved, with the time of the resolution.
\<close>

theorem success_rate_warning_then_resolved:
  "success_rate (current_status mon_92) = 92
   \<and> map_option warning_level (thresholds mon_92 ''success_rate'') = Some 95
   \<and> map_option critical_level (thresholds mon_92 ''success_rate'') = Some 90
   \<and> map fst (active_alerts mon_92) = [''success_rate'']
   \<and> map alert_type (get_active_alerts mon_92) = [''success_rate'']
   \<and> map severity (get_active_alerts mon_92) = [''warning'']
   \<and> map resolved (get_active_alerts mon_92) = [False]
   \<and> success_rate (current_status mon_96) = 96
   \<and> active_alerts mon_96 = []
   \<and> get_active_alerts mon_96 = []
   \<and> map alert_type (alert_objects mon_96) = [''success_rate'']
   \<and> map resolved (alert_objects mon_96) = [True]
   \<and> map resolved_at (alert_objects mon_96) = [Some 2000002]"
  by (simp add: mon_92_state mon_96_state get_active_alerts_def List.map_filter_def deref_def
        sr_default_threshold sr_threshold_def)

end
